theory Spec2Isabelle
  imports Complex_Main "HOL-Library.Sublist" "HOL-Library.AList"
begin

section \<open>Python values used by the mood classifier\<close>

text \<open>
  The repository holds two Streamlit dashboards, \<^verbatim>\<open>mindmate_front.py\<close> and
  \<^verbatim>\<open>mindmate_frontend.py\<close>. Each has one analysis function
  (\<^verbatim>\<open>mock_analyze_mood\<close> and \<^verbatim>\<open>analyze_mood\<close>) built from keyword tables; the first
  dashboard also has two handlers that delete stored entries.

  Strings are modelled as \<^typ>\<open>string\<close>, that is as byte strings: a text is its UTF-8
  encoding, and the few non-ASCII characters of the fixed output texts are written as their
  bytes. Every keyword is ASCII, so searching a keyword in the bytes of a text finds what
  searching it in the code points finds.

  \<^verbatim>\<open>str.lower\<close> is a built-in with a case table for all of Unicode (it turns the Kelvin
  sign into \<^verbatim>\<open>k\<close>, for one). Like \<^verbatim>\<open>hash\<close> below it is not code of this repository,
  and the two analysis functions take it as their parameter \<^verbatim>\<open>lower\<close>. On a text of
  ASCII characters it is \<open>ascii_lower\<close>: the letters \<^verbatim>\<open>A\<close> to \<^verbatim>\<open>Z\<close> become
  \<^verbatim>\<open>a\<close> to \<^verbatim>\<open>z\<close> and nothing else changes.
\<close>

datatype py_error = KeyError | ValueError | IndexError

definition lower_char :: "char \<Rightarrow> char" where
  "lower_char c =
     (let n = (of_char c :: nat) in if 65 \<le> n \<and> n \<le> 90 then char_of (n + 32) else c)"

text \<open>\<^verbatim>\<open>s.lower()\<close> for a string \<^verbatim>\<open>s\<close> of ASCII characters.\<close>

definition ascii_lower :: "string \<Rightarrow> string" where
  "ascii_lower s = map lower_char s"

text \<open>\<^verbatim>\<open>kw in s\<close> on strings: \<^verbatim>\<open>kw\<close> starts at some position of \<^verbatim>\<open>s\<close>.\<close>

fun str_in :: "string \<Rightarrow> string \<Rightarrow> bool" where
  "str_in kw [] = (kw = [])"
| "str_in kw (c # cs) = (prefix kw (c # cs) \<or> str_in kw cs)"

text \<open>\<^verbatim>\<open>sep.join(parts)\<close>\<close>

fun py_join :: "string \<Rightarrow> string list \<Rightarrow> string" where
  "py_join sep [] = []"
| "py_join sep [x] = x"
| "py_join sep (x # y # ys) = x @ sep @ py_join sep (y # ys)"

text \<open>
  A \<^verbatim>\<open>dict\<close> keeps its keys in insertion order, and \<^verbatim>\<open>max\<close> below depends on that
  order: a dict is an association list, \<^verbatim>\<open>d[k] = v\<close> overwrites in place or appends.
\<close>

type_synonym 'v dict = "(string \<times> 'v) list"

definition dict_set :: "string \<Rightarrow> 'v \<Rightarrow> 'v dict \<Rightarrow> 'v dict" where
  "dict_set k v d = AList.update k v d"

text \<open>\<^verbatim>\<open>d[k]\<close> raises \<^verbatim>\<open>KeyError\<close> on a missing key.\<close>

definition dict_get :: "'v dict \<Rightarrow> string \<Rightarrow> py_error + 'v" where
  "dict_get d k = (case map_of d k of None \<Rightarrow> Inl KeyError | Some v \<Rightarrow> Inr v)"

text \<open>\<^verbatim>\<open>xs[i]\<close> for an index \<^verbatim>\<open>i \<ge> 0\<close>; \<^verbatim>\<open>IndexError\<close> beyond the end.\<close>

definition list_get :: "'a list \<Rightarrow> int \<Rightarrow> py_error + 'a" where
  "list_get xs i = (if 0 \<le> i \<and> i < int (length xs) then Inr (xs ! nat i) else Inl IndexError)"

text \<open>
  \<^verbatim>\<open>max(xs, key=key)\<close>: \<^verbatim>\<open>ValueError\<close> on an empty sequence; otherwise the running
  maximum is replaced only by a strictly greater element, so the first of several maximal
  elements is returned.
\<close>

fun py_max_key :: "('a \<Rightarrow> 'k::linorder) \<Rightarrow> 'a list \<Rightarrow> py_error + 'a" where
  "py_max_key key [] = Inl ValueError"
| "py_max_key key (x # xs) = Inr (fold (\<lambda>y best. if key best < key y then y else best) xs x)"

text \<open>\<^verbatim>\<open>xs.remove(x)\<close>: deletes the first element equal to \<^verbatim>\<open>x\<close>, \<^verbatim>\<open>ValueError\<close> if none.\<close>

definition list_remove :: "'a \<Rightarrow> 'a list \<Rightarrow> py_error + 'a list" where
  "list_remove x xs = (if x \<in> set xs then Inr (remove1 x xs) else Inl ValueError)"

text \<open>\<^verbatim>\<open>str(n)\<close> for a non-negative integer.\<close>

definition digit_char :: "nat \<Rightarrow> char" where
  "digit_char d = char_of (48 + d)"

function str_of_nat :: "nat \<Rightarrow> string" where
  "str_of_nat n = (if n < 10 then [digit_char n] else str_of_nat (n div 10) @ [digit_char (n mod 10)])"
  by pat_completeness auto
termination
  by (relation "measure (\<lambda>n. n)") auto

declare str_of_nat.simps [simp del]

section \<open>The result record\<close>

text \<open>
  Both analysis functions return a dict with fixed keys. \<^verbatim>\<open>mock_analyze_mood\<close> stores
  integer counts under \<^verbatim>\<open>trigger_scores\<close> and the text under \<^verbatim>\<open>mood\<close>;
  \<^verbatim>\<open>analyze_mood\<close> of \<^verbatim>\<open>mindmate_frontend.py\<close> stores float weights and has no
  \<^verbatim>\<open>mood\<close> key. \<^verbatim>\<open>private_note\<close> is added by the form handler, never by the analysis.
\<close>

record 's mood_entry =
  success :: bool
  record_id :: string
  user_id :: string
  mood :: "string option"
  primary_trigger :: string
  trigger_scores :: "'s dict"
  severity :: string
  advice :: string
  music_track :: string
  deep_insight :: string
  timestamp :: string
  private_note :: "string option"

section \<open>\<^verbatim>\<open>mock_analyze_mood\<close> of \<^verbatim>\<open>mindmate_front.py\<close>\<close>

subsection \<open>Trigger scores and the primary trigger\<close>

definition trigger_keywords :: "string list dict" where
  "trigger_keywords =
    [(''political'', [''election'', ''politics'', ''government'', ''vote'', ''policy'', ''politician'']),
     (''work'', [''job'', ''boss'', ''deadline'', ''work'', ''career'', ''office'', ''colleague'']),
     (''health'', [''sick'', ''pain'', ''anxiety'', ''depression'', ''mental'', ''physical'']),
     (''relationship'', [''partner'', ''breakup'', ''marriage'', ''dating'', ''spouse'', ''divorce'']),
     (''financial'', [''money'', ''debt'', ''bills'', ''salary'', ''budget'', ''expensive'']),
     (''academic'', [''exam'', ''school'', ''study'', ''grade'', ''homework'', ''test'']),
     (''family'', [''family'', ''parent'', ''mother'', ''father'', ''sibling'', ''child'']),
     (''social'', [''friend'', ''lonely'', ''isolated'', ''people'', ''community'']),
     (''environmental'', [''climate'', ''environment'', ''pollution'', ''nature'', ''weather''])]"

text \<open>\<^verbatim>\<open>sum(1 for kw in keywords if kw in mood_lower)\<close>\<close>

definition keyword_score :: "string list \<Rightarrow> string \<Rightarrow> int" where
  "keyword_score keywords mood_lower =
     sum_list (map (\<lambda>kw. 1) (filter (\<lambda>kw. str_in kw mood_lower) keywords))"

text \<open>The loop over \<^verbatim>\<open>trigger_keywords.items()\<close> that fills \<^verbatim>\<open>trigger_scores\<close>.\<close>

definition score_triggers :: "string \<Rightarrow> int dict" where
  "score_triggers mood_lower =
     fold (\<lambda>(trigger, keywords) d. dict_set trigger (keyword_score keywords mood_lower) d)
       trigger_keywords []"

text \<open>
  \<^verbatim>\<open>max(trigger_scores.items(), key=lambda x: x[1])[0] if any(trigger_scores.values())
  else "other"\<close>; a score is truthy when it is not zero.
\<close>

definition pick_primary :: "int dict \<Rightarrow> py_error + string" where
  "pick_primary d =
     (if list_ex (\<lambda>v. v \<noteq> 0) (map snd d) then map_sum id fst (py_max_key snd d)
      else Inr ''other'')"

subsection \<open>Severity\<close>

definition high_words :: "string list" where
  "high_words =
     [''crisis'', ''hopeless'', ''unbearable'', ''suicide'', ''kill'', ''can't take'', ''overwhelming'']"

definition medium_words :: "string list" where
  "medium_words = [''stressed'', ''anxious'', ''worried'', ''upset'', ''struggling'', ''difficult'']"

definition auto_severity :: "string \<Rightarrow> string" where
  "auto_severity mood_lower =
     (if list_ex (\<lambda>word. str_in word mood_lower) high_words then ''high''
      else if list_ex (\<lambda>word. str_in word mood_lower) medium_words then ''medium''
      else ''low'')"

text \<open>
  \<^verbatim>\<open>if not severity:\<close> holds for \<^verbatim>\<open>None\<close> and for the empty string; any other string
  is kept as it is.
\<close>

definition resolve_severity :: "string option \<Rightarrow> string \<Rightarrow> string" where
  "resolve_severity sev0 mood_lower =
     (case sev0 of
        None \<Rightarrow> auto_severity mood_lower
      | Some s \<Rightarrow> if s = [] then auto_severity mood_lower else s)"

subsection \<open>Insight\<close>

definition base_insight :: "string \<Rightarrow> string" where
  "base_insight sev =
     (if sev = ''high'' then
        ''Your entry indicates significant emotional distress that warrants immediate attention.''
      else if sev = ''medium'' then
        ''Your mood reflects notable challenges that could benefit from proactive support.''
      else ''Your emotional state appears stable with manageable concerns.'')"

definition trigger_insights :: "string dict dict" where
  "trigger_insights =
    [(''political'',
       [(''high'', ''Political events can deeply affect our sense of safety and control. Consider limiting news consumption and focusing on local action you can take.''),
        (''medium'', ''Political concerns are valid. Channel this energy into constructive civic engagement or set boundaries around political media.''),
        (''low'', ''Your political awareness is healthy. Stay informed while maintaining balance in other life areas.'')]),
     (''work'',
       [(''high'', ''Work-related distress at this level may indicate burnout or unsustainable conditions. Professional boundaries and support are crucial.''),
        (''medium'', ''Work pressures are impacting your wellbeing. Time management, delegation, or discussing workload with supervisors may help.''),
        (''low'', ''Work challenges are present but manageable. Continue using your coping strategies and maintain work-life boundaries.'')]),
     (''health'',
       [(''high'', ''Health concerns causing this level of distress require both medical attention and mental health support. Don't hesitate to reach out.''),
        (''medium'', ''Health worries can be consuming. Consulting healthcare providers and practicing self-compassion are important steps.''),
        (''low'', ''Health awareness is positive. Continue healthy routines and address concerns early with medical professionals.'')]),
     (''relationship'',
       [(''high'', ''Relationship conflicts at this intensity significantly impact emotional wellbeing. Couples therapy or counseling could provide valuable support.''),
        (''medium'', ''Relationship challenges are affecting you. Open communication, setting healthy boundaries, and possibly counseling could help.''),
        (''low'', ''Relationship dynamics have ups and downs. Your awareness suggests you're navigating this thoughtfully.'')]),
     (''financial'',
       [(''high'', ''Financial stress at this level can feel overwhelming. Seek support from financial counselors, trusted advisors, or mental health professionals.''),
        (''medium'', ''Money concerns are weighing on you. Creating a budget, exploring resources, or consulting a financial advisor may provide relief.''),
        (''low'', ''Financial awareness is responsible. Continue monitoring your finances and planning for future stability.'')]),
     (''academic'',
       [(''high'', ''Academic pressure has reached a critical point. Reach out to counselors, professors, or academic support services immediately.''),
        (''medium'', ''Academic stress is significant. Time management, study groups, tutoring, or speaking with instructors could ease the burden.''),
        (''low'', ''Academic challenges are normal. Your approach seems balanced'' @ [CHR 0xE2, CHR 0x80, CHR 0x94] @ ''continue your study habits and self-care.'')]),
     (''family'',
       [(''high'', ''Family dynamics causing this distress may benefit from family therapy or individual counseling to process these relationships.''),
        (''medium'', ''Family tensions are impacting you. Setting boundaries, open dialogue when safe, or therapy can help navigate these relationships.''),
        (''low'', ''Family relationships have complexities. Your self-awareness in managing these dynamics is healthy.'')]),
     (''social'',
       [(''high'', ''Social isolation or conflicts at this level need attention. Consider reaching out to trusted friends, joining groups, or seeking counseling.''),
        (''medium'', ''Social concerns are affecting your mood. Small steps like reaching out to one person or joining an activity can make a difference.''),
        (''low'', ''Social connections seem balanced. Continue nurturing relationships that bring you joy and support.'')]),
     (''environmental'',
       [(''high'', ''Environmental anxiety (eco-anxiety) is real and valid. Channeling this into action while practicing self-care is essential.''),
        (''medium'', ''Environmental concerns are weighing on you. Balance staying informed with taking breaks and focusing on actionable steps.''),
        (''low'', ''Environmental awareness shows your values. Continue sustainable choices while maintaining overall wellbeing.'')]),
     (''other'',
       [(''high'', ''You're experiencing significant distress. Professional support can help you understand and address what you're going through.''),
        (''medium'', ''Multiple factors may be contributing to your current state. Taking time to identify specific concerns can be helpful.''),
        (''low'', ''General life challenges are present. Your self-reflection and self-care practices are serving you well.'')])]"

definition closing_insight :: "string \<Rightarrow> string" where
  "closing_insight sev =
     (if sev = ''high'' then
        ''Remember: You deserve support and things can improve with proper help.''
      else if sev = ''medium'' then
        ''Taking proactive steps now can prevent escalation and improve your situation.''
      else ''Maintaining this self-awareness and continuing healthy habits will serve you well.'')"

text \<open>
  \<^verbatim>\<open>insight_parts\<close> and \<^verbatim>\<open>" ".join(insight_parts)\<close>. The middle part is appended only
  when the trigger is a key of \<^verbatim>\<open>trigger_insights\<close>; the inner lookup
  \<^verbatim>\<open>trigger_insights[primary_trigger][severity]\<close> raises \<^verbatim>\<open>KeyError\<close> for a severity
  that is none of the three tiers.
\<close>

definition build_insight :: "string \<Rightarrow> string \<Rightarrow> py_error + string" where
  "build_insight primary sev =
     (case map_of trigger_insights primary of
        None \<Rightarrow> Inr (py_join '' '' [base_insight sev, closing_insight sev])
      | Some by_severity \<Rightarrow>
          (case dict_get by_severity sev of
             Inl e \<Rightarrow> Inl e
           | Inr specific \<Rightarrow>
               Inr (py_join '' '' [base_insight sev, specific, closing_insight sev])))"

subsection \<open>Advice and music\<close>

definition advice_text :: "string \<Rightarrow> string" where
  "advice_text sev =
     (if sev = ''high'' then
        [CHR 0xF0, CHR 0x9F, CHR 0x9A, CHR 0xA8] @
        '' IMMEDIATE SUPPORT NEEDED:\<newline>1. Deep breathing (4-7-8 technique: inhale 4, hold 7, exhale 8)\<newline>2. Contact a trusted person immediately\<newline>3. Crisis Lifeline: 988 (call or text) or text HELLO to 741741\<newline>4. Remove yourself from immediate stressors if safe\<newline>5. Consider emergency mental health services if needed''
      else if sev = ''medium'' then
        [CHR 0xE2, CHR 0x9A, CHR 0xA0, CHR 0xEF, CHR 0xB8, CHR 0x8F] @
        '' STRESS MANAGEMENT:\<newline>1. Journal your thoughts (10-15 minutes of free writing)\<newline>2. Take an outdoor walk (15-20 minutes, mindful movement)\<newline>3. Practice mindfulness or meditation (apps: Headspace, Calm)\<newline>4. Connect with your support network (call or text someone)\<newline>5. Limit caffeine and prioritize sleep (7-9 hours)''
      else
        [CHR 0xE2, CHR 0x9C, CHR 0x85] @
        '' MAINTAIN YOUR BALANCE:\<newline>1. Continue your healthy routines and self-care practices\<newline>2. Engage in activities that bring you joy and fulfillment\<newline>3. Stay connected with friends, family, and community\<newline>4. Keep a gratitude journal (note 3 things daily)\<newline>5. Exercise regularly and maintain good sleep hygiene\<newline>6. Celebrate small wins and progress'')"

definition music_options :: "string \<Rightarrow> string list" where
  "music_options sev =
     (if sev = ''high'' then
        [''Weightless - Marconi Union (scientifically proven calming)'',
         ''Spiegel im Spiegel - Arvo P'' @ [CHR 0xC3, CHR 0xA4] @ ''rt (deeply peaceful)'',
         ''Clair de Lune - Debussy (gentle, soothing)'']
      else if sev = ''medium'' then
        [''Clair de Lune - Debussy (calming classical)'',
         ''Pure Shores - All Saints (relaxing)'',
         ''Nocturne in E-flat Major - Chopin (peaceful piano)'']
      else
        [''Here Comes The Sun - The Beatles (uplifting)'',
         ''Three Little Birds - Bob Marley (positive vibes)'',
         ''Good Vibrations - The Beach Boys (mood-boosting)''])"

text \<open>
  \<^verbatim>\<open>music_options[hash(mood_text) % len(music_options)]\<close>. The built-in \<^verbatim>\<open>hash\<close> is a
  parameter: it is a function of the string within one interpreter process (string hashing
  is seeded per process). Python's \<^verbatim>\<open>%\<close> with a positive right operand is \<open>mod\<close> on
  \<^typ>\<open>int\<close>.
\<close>

definition pick_music :: "(string \<Rightarrow> int) \<Rightarrow> string \<Rightarrow> string \<Rightarrow> py_error + string" where
  "pick_music hash mood_text sev =
     (let options = music_options sev
      in list_get options (hash mood_text mod int (length options)))"

subsection \<open>The whole function\<close>

text \<open>
  Besides \<^verbatim>\<open>hash\<close>, the parameters from outside the repository are \<^verbatim>\<open>lower\<close>
  (\<^verbatim>\<open>str.lower\<close>), \<^verbatim>\<open>md5_hexdigest\<close> (\<^verbatim>\<open>hashlib.md5(s.encode()).hexdigest()\<close>) and the two readings of
  the clock, \<^verbatim>\<open>now1\<close> and \<^verbatim>\<open>now2\<close> (\<^verbatim>\<open>datetime.now().isoformat()\<close>, called once for
  the record id and once for the timestamp).
\<close>

definition mock_analyze_mood ::
  "(string \<Rightarrow> string) \<Rightarrow> (string \<Rightarrow> int) \<Rightarrow> (string \<Rightarrow> string) \<Rightarrow> string \<Rightarrow> string \<Rightarrow>
   string \<Rightarrow> string \<Rightarrow> string option \<Rightarrow> py_error + int mood_entry" where
  "mock_analyze_mood lower hash md5_hexdigest now1 now2 uid mood_text sev0 =
     (let mood_lower = lower mood_text;
          scores = score_triggers mood_lower
      in case pick_primary scores of
           Inl e \<Rightarrow> Inl e
         | Inr primary \<Rightarrow>
             (let sev = resolve_severity sev0 mood_lower
              in case build_insight primary sev of
                   Inl e \<Rightarrow> Inl e
                 | Inr insight \<Rightarrow>
                     (case pick_music hash mood_text sev of
                        Inl e \<Rightarrow> Inl e
                      | Inr music \<Rightarrow>
                          Inr \<lparr> success = True,
                                record_id = take 12 (md5_hexdigest (uid @ now1)),
                                user_id = uid,
                                mood = Some mood_text,
                                primary_trigger = primary,
                                trigger_scores = scores,
                                severity = sev,
                                advice = advice_text sev,
                                music_track = music,
                                deep_insight = insight,
                                timestamp = now2,
                                private_note = None \<rparr>)))"

section \<open>\<^verbatim>\<open>analyze_mood\<close> of \<^verbatim>\<open>mindmate_frontend.py\<close>\<close>

text \<open>
  The chain of \<^verbatim>\<open>if any(word in text_lower for word in [...])\<close> statements, in source
  order: the words, the key that is set and its weight. The weights are float literals that
  are only stored and compared; they are modelled as the rationals they denote, whose order
  is the order of the floats.
\<close>

definition frontend_rules :: "(string list \<times> string \<times> rat) list" where
  "frontend_rules =
    [([''election'', ''government'', ''politics''], ''political'', 8 / 10),
     ([''people'', ''society'', ''community''], ''social'', 7 / 10),
     ([''climate'', ''environment'', ''pollution''], ''environmental'', 75 / 100),
     ([''work'', ''job'', ''boss'', ''career''], ''work'', 8 / 10),
     ([''relationship'', ''partner'', ''breakup''], ''relationship'', 85 / 100),
     ([''sick'', ''pain'', ''health''], ''health'', 8 / 10),
     ([''money'', ''debt'', ''bills''], ''financial'', 75 / 100)]"

definition frontend_score_triggers :: "string \<Rightarrow> rat dict" where
  "frontend_score_triggers text_lower =
     fold (\<lambda>(ws, trigger, weight) d.
             if list_ex (\<lambda>word. str_in word text_lower) ws then dict_set trigger weight d else d)
       frontend_rules []"

text \<open>
  \<^verbatim>\<open>max(trigger_scores, key=trigger_scores.get) if trigger_scores else "other"\<close>: the keys
  are visited in insertion order and compared by their values, which is the first component
  of the first item with the greatest value.
\<close>

definition frontend_pick_primary :: "rat dict \<Rightarrow> py_error + string" where
  "frontend_pick_primary d =
     (if d \<noteq> [] then map_sum id fst (py_max_key snd d) else Inr ''other'')"

definition stress_words :: "string list" where
  "stress_words = [''overwhelmed'', ''anxious'', ''depressed'', ''crisis'', ''help'', ''can't'']"

definition frontend_resolve_severity :: "string option \<Rightarrow> string \<Rightarrow> string" where
  "frontend_resolve_severity sev0 text_lower =
     (let auto = (if list_ex (\<lambda>word. str_in word text_lower) stress_words then ''high''
                  else ''medium'')
      in case sev0 of None \<Rightarrow> auto | Some s \<Rightarrow> if s = [] then auto else s)"

definition bullet :: string where
  "bullet = [CHR 0xE2, CHR 0x80, CHR 0xA2]"

definition frontend_advice :: "string \<Rightarrow> string" where
  "frontend_advice sev =
     (if sev = ''high'' then
        ''IMMEDIATE SUPPORT:\<newline>'' @ bullet @ '' Deep breathing (4-7-8 technique)\<newline>'' @ bullet @
        '' Contact trusted person\<newline>'' @ bullet @ '' Crisis line: 988\<newline>'' @ bullet @
        '' Remove from immediate stressors''
      else if sev = ''medium'' then
        ''STRESS MANAGEMENT:\<newline>'' @ bullet @ '' Journal your thoughts\<newline>'' @ bullet @
        '' 15-minute walk\<newline>'' @ bullet @ '' Mindfulness practice\<newline>'' @ bullet @
        '' Connect with support network''
      else
        ''MAINTAIN BALANCE:\<newline>'' @ bullet @ '' Continue healthy routines\<newline>'' @ bullet @
        '' Engage in joy activities\<newline>'' @ bullet @ '' Stay connected\<newline>'' @ bullet @
        '' Track mood patterns'')"

definition frontend_music :: "string \<Rightarrow> string" where
  "frontend_music sev =
     (if sev = ''high'' then ''Weightless - Marconi Union''
      else if sev = ''medium'' then ''Clair de Lune - Debussy''
      else ''Here Comes The Sun - The Beatles'')"

definition frontend_insight :: "string \<Rightarrow> string" where
  "frontend_insight sev =
     (if sev = ''high'' then
        ''Significant emotional distress detected. Professional support recommended.''
      else if sev = ''medium'' then
        ''Notable stress levels. Implementing coping strategies is beneficial.''
      else ''Manageable stress levels. Keep up the good work!'')"

text \<open>
  \<^verbatim>\<open>lower\<close> is \<^verbatim>\<open>str.lower\<close>, \<^verbatim>\<open>n_entries\<close> is \<^verbatim>\<open>len(st.session_state.entries)\<close>
  at the call, \<^verbatim>\<open>now\<close> the reading of the clock.
\<close>

definition frontend_analyze_mood ::
  "(string \<Rightarrow> string) \<Rightarrow> nat \<Rightarrow> string \<Rightarrow> string \<Rightarrow> string \<Rightarrow> string option \<Rightarrow>
   py_error + rat mood_entry" where
  "frontend_analyze_mood lower n_entries now uid mood_text sev0 =
     (let text_lower = lower mood_text;
          scores = frontend_score_triggers text_lower
      in case frontend_pick_primary scores of
           Inl e \<Rightarrow> Inl e
         | Inr primary \<Rightarrow>
             (let sev = frontend_resolve_severity sev0 text_lower
              in Inr \<lparr> success = True,
                       record_id = ''entry_'' @ str_of_nat (n_entries + 1),
                       user_id = uid,
                       mood = None,
                       primary_trigger = primary,
                       trigger_scores = scores,
                       severity = sev,
                       advice = frontend_advice sev,
                       music_track = frontend_music sev,
                       deep_insight = frontend_insight sev,
                       timestamp = now,
                       private_note = None \<rparr>))"

section \<open>The handlers of \<^verbatim>\<open>mindmate_front.py\<close> that delete entries\<close>

text \<open>
  The state the handlers touch: \<^verbatim>\<open>st.session_state.entries\<close> and the data file. The
  file is absent, or holds a JSON document with a list of entries, or was opened for writing
  and not written to the end, so that it is empty or holds the beginning of a document.
\<close>

datatype file_content = No_file | Document "int mood_entry list" | Truncated

record app_state =
  entries :: "int mood_entry list"
  data_file :: file_content

text \<open>
  \<^verbatim>\<open>save_data\<close> opens the file with mode \<^verbatim>\<open>'w'\<close> and dumps the entries into it; any
  exception is caught and reported, and the handlers ignore the returned flag. What happens
  is a parameter: the document is written, or \<^verbatim>\<open>open\<close> fails and the file stays as it
  was, or \<^verbatim>\<open>open\<close> has emptied the file and \<^verbatim>\<open>json.dump\<close> fails.
\<close>

datatype write_outcome = Written | Open_failed | Dump_failed

definition save_data :: "write_outcome \<Rightarrow> int mood_entry list \<Rightarrow> app_state \<Rightarrow> app_state" where
  "save_data w es st =
     (case w of
        Written \<Rightarrow> st\<lparr>data_file := Document es\<rparr>
      | Open_failed \<Rightarrow> st
      | Dump_failed \<Rightarrow> st\<lparr>data_file := Truncated\<rparr>)"

text \<open>
  "Clear My Data": \<^verbatim>\<open>[e for e in entries if e['user_id'] != current_user]\<close>, then
  \<^verbatim>\<open>save_data\<close>.
\<close>

definition clear_my_data :: "write_outcome \<Rightarrow> string \<Rightarrow> app_state \<Rightarrow> app_state" where
  "clear_my_data w current_user st =
     (let st' = st\<lparr>entries := filter (\<lambda>e. user_id e \<noteq> current_user) (entries st)\<rparr>
      in save_data w (entries st') st')"

text \<open>
  "Delete Entry" in the history tab: \<^verbatim>\<open>st.session_state.entries.remove(entry)\<close>, then
  \<^verbatim>\<open>save_data\<close>.
\<close>

definition delete_entry ::
  "write_outcome \<Rightarrow> int mood_entry \<Rightarrow> app_state \<Rightarrow> py_error + app_state" where
  "delete_entry w entry st =
     (case list_remove entry (entries st) of
        Inl e \<Rightarrow> Inl e
      | Inr es \<Rightarrow> (let st' = st\<lparr>entries := es\<rparr> in Inr (save_data w (entries st') st')))"

section \<open>Vocabulary of the specification\<close>

text \<open>
  A keyword occurs in a text as a case-insensitive substring: the lower-cased text contains
  the keyword. Every keyword of the tables is in lower case already.
\<close>

definition ci_occurs :: "(string \<Rightarrow> string) \<Rightarrow> string \<Rightarrow> string \<Rightarrow> bool" where
  "ci_occurs lower kw s = (\<exists>pre post. lower s = pre @ kw @ post)"

text \<open>
  For a text of ASCII characters this can be said without \<^verbatim>\<open>str.lower\<close>: some stretch of
  the text and the keyword are equal up to the case of their letters.
\<close>

definition is_ascii :: "string \<Rightarrow> bool" where
  "is_ascii s = (\<forall>c\<in>set s. (of_char c :: nat) < 128)"

definition ascii_faithful :: "(string \<Rightarrow> string) \<Rightarrow> bool" where
  "ascii_faithful lower = (\<forall>s. is_ascii s \<longrightarrow> lower s = ascii_lower s)"

definition matches_ignoring_case :: "string \<Rightarrow> string \<Rightarrow> bool" where
  "matches_ignoring_case kw s =
     (\<exists>pre mid post. s = pre @ mid @ post \<and> ascii_lower mid = ascii_lower kw)"

text \<open>The fixed category labels, in the order of the keyword table, and the severity tiers.\<close>

definition categories :: "string list" where
  "categories = map fst trigger_keywords"

definition tiers :: "string list" where
  "tiers = [''low'', ''medium'', ''high'']"

text \<open>The severity argument of a call: absent, or one of the three tiers.\<close>

definition severity_arg_ok :: "string option \<Rightarrow> bool" where
  "severity_arg_ok sev0 = (case sev0 of None \<Rightarrow> True | Some s \<Rightarrow> s \<in> set tiers)"

text \<open>
  \<open>first_max d c\<close>: in the scores \<open>d\<close>, taken in their order, \<open>c\<close> has the greatest
  score and every earlier category has a strictly smaller one.
\<close>

definition first_max :: "('v::linorder) dict \<Rightarrow> string \<Rightarrow> bool" where
  "first_max d c =
     (\<exists>pre v post. d = pre @ (c, v) # post \<and> (\<forall>x\<in>set pre. snd x < v) \<and> (\<forall>x\<in>set post. snd x \<le> v))"

text \<open>The ASCII characters that \<^verbatim>\<open>str.isspace\<close> accepts.\<close>

definition is_space :: "char \<Rightarrow> bool" where
  "is_space c = ((of_char c :: nat) \<in> {9, 10, 11, 12, 13, 28, 29, 30, 31, 32})"

text \<open>
  The severity the specification describes for a list of high keywords and a list of
  medium keywords, and the score it describes for the keywords of one category.
\<close>

definition claimed_severity ::
  "(string \<Rightarrow> string) \<Rightarrow> string list \<Rightarrow> string list \<Rightarrow> string \<Rightarrow> string" where
  "claimed_severity lower highs mediums t =
     (if \<exists>kw\<in>set highs. ci_occurs lower kw t then ''high''
      else if \<exists>kw\<in>set mediums. ci_occurs lower kw t then ''medium''
      else ''low'')"

definition claimed_score :: "(string \<Rightarrow> string) \<Rightarrow> string list \<Rightarrow> string \<Rightarrow> int" where
  "claimed_score lower kws t = int (card {kw \<in> set kws. ci_occurs lower kw t})"

text \<open>The fields of a result that describe the analysis itself.\<close>

definition analysis_fields ::
  "'s mood_entry \<Rightarrow> string \<times> 's dict \<times> string \<times> string \<times> string \<times> string" where
  "analysis_fields r =
     (primary_trigger r, trigger_scores r, severity r, advice r, music_track r, deep_insight r)"

text \<open>
  The insight the specification describes for a trigger and a severity: the boilerplate
  sentence of the severity, the sentence of the table, the closing sentence of the
  severity, with \<open>sep\<close> between them.
\<close>

definition claimed_insight :: "string \<Rightarrow> string \<Rightarrow> string \<Rightarrow> string option" where
  "claimed_insight sep p sev =
     (case map_of trigger_insights p of
        None \<Rightarrow> None
      | Some by_severity \<Rightarrow>
          (case map_of by_severity sev of
             None \<Rightarrow> None
           | Some specific \<Rightarrow>
               Some (base_insight sev @ sep @ specific @ sep @ closing_insight sev)))"

section \<open>Python operations\<close>

lemma str_in_sublist: "str_in kw s = sublist kw s"
  by (induction s) (simp_all add: sublist_Cons_right)

lemma sublist_map_iff:
  "sublist kw (map f s) \<longleftrightarrow> (\<exists>pre mid post. s = pre @ mid @ post \<and> map f mid = kw)"
proof
  assume "sublist kw (map f s)"
  then obtain ps ss where "map f s = ps @ kw @ ss" by (auto simp: sublist_def)
  then obtain pre rest where s: "s = pre @ rest" and rest: "map f rest = kw @ ss"
    by (metis map_eq_append_conv)
  from rest obtain mid post where "rest = mid @ post" and "map f mid = kw"
    by (metis map_eq_append_conv)
  with s show "\<exists>pre mid post. s = pre @ mid @ post \<and> map f mid = kw"
    by blast
next
  assume "\<exists>pre mid post. s = pre @ mid @ post \<and> map f mid = kw"
  then obtain pre mid post where "s = pre @ mid @ post" and "map f mid = kw" by blast
  then have "map f s = map f pre @ kw @ map f post" by simp
  then show "sublist kw (map f s)" unfolding sublist_def by blast
qed

lemma str_in_ci: "str_in kw (lower s) = ci_occurs lower kw s"
  by (simp add: str_in_sublist ci_occurs_def sublist_def)

lemma ci_occurs_ascii:
  assumes "ascii_faithful lower" and "is_ascii s" and "ascii_lower kw = kw"
  shows "ci_occurs lower kw s = matches_ignoring_case kw s"
proof -
  from assms(1,2) have "lower s = map lower_char s"
    by (simp add: ascii_faithful_def ascii_lower_def)
  then have "ci_occurs lower kw s = sublist kw (map lower_char s)"
    by (simp add: ci_occurs_def sublist_def)
  also have "\<dots> = (\<exists>pre mid post. s = pre @ mid @ post \<and> map lower_char mid = kw)"
    by (rule sublist_map_iff)
  also have "\<dots> = matches_ignoring_case kw s"
    using assms(3) by (simp add: matches_ignoring_case_def ascii_lower_def)
  finally show ?thesis .
qed

lemma py_max_fold:
  "\<lbrakk>\<forall>y\<in>set pre. key y < key b; \<forall>y\<in>set mid. key y \<le> key b\<rbrakk> \<Longrightarrow>
   \<exists>pre' post'. pre @ b # mid @ xs = pre' @ fold (\<lambda>y best. if key best < key y then y else best) xs b # post'
      \<and> (\<forall>y\<in>set pre'. key y < key (fold (\<lambda>y best. if key best < key y then y else best) xs b))
      \<and> (\<forall>y\<in>set post'. key y \<le> key (fold (\<lambda>y best. if key best < key y then y else best) xs b))"
  for key :: "'a \<Rightarrow> 'k::linorder"
proof (induction xs arbitrary: pre b mid)
  case Nil
  then show ?case by auto
next
  case (Cons x xs)
  show ?case
  proof (cases "key b < key x")
    case True
    have a: "\<forall>y\<in>set (pre @ b # mid). key y < key x"
      using Cons.prems True by (auto intro: less_trans le_less_trans)
    have b: "\<forall>y\<in>set []. key y \<le> key x" by simp
    from Cons.IH[OF a b] True show ?thesis by simp
  next
    case False
    have b: "\<forall>y\<in>set (mid @ [x]). key y \<le> key b"
      using Cons.prems False by auto
    from Cons.IH[OF Cons.prems(1) b] False show ?thesis by simp
  qed
qed

lemma py_max_key_first:
  "py_max_key key xs = Inr m \<Longrightarrow>
   \<exists>pre post. xs = pre @ m # post \<and> (\<forall>y\<in>set pre. key y < key m) \<and> (\<forall>y\<in>set post. key y \<le> key m)"
  for key :: "'a \<Rightarrow> 'k::linorder"
proof (cases xs)
  case Nil
  assume "py_max_key key xs = Inr m"
  with Nil show ?thesis by simp
next
  case (Cons x xs')
  assume "py_max_key key xs = Inr m"
  with Cons have m: "m = fold (\<lambda>y best. if key best < key y then y else best) xs' x" by simp
  from py_max_fold[of "[]" key x "[]" xs'] show ?thesis unfolding m Cons by simp
qed

lemma py_max_key_total: "xs \<noteq> [] \<Longrightarrow> \<exists>m. py_max_key key xs = Inr m"
  by (cases xs) simp_all

section \<open>Steps of the two analysis functions\<close>

lemma score_triggers_eq:
  "score_triggers ml = map (\<lambda>(trigger, keywords). (trigger, keyword_score keywords ml)) trigger_keywords"
  by (simp add: score_triggers_def trigger_keywords_def dict_set_def)

lemma keyword_score_length: "keyword_score kws ml = int (length (filter (\<lambda>kw. str_in kw ml) kws))"
  by (simp add: keyword_score_def sum_list_triv)

lemma py_max_key_first_max:
  "py_max_key snd d = Inr m \<Longrightarrow> first_max d (fst m)"
proof -
  assume "py_max_key snd d = Inr m"
  from py_max_key_first[OF this]
  obtain pre post where "d = pre @ m # post" "\<forall>y\<in>set pre. snd y < snd m" "\<forall>y\<in>set post. snd y \<le> snd m"
    by blast
  then have "d = pre @ (fst m, snd m) # post \<and> (\<forall>x\<in>set pre. snd x < snd m) \<and> (\<forall>x\<in>set post. snd x \<le> snd m)"
    by simp
  then show ?thesis unfolding first_max_def by blast
qed

lemma first_max_key: "first_max d c \<Longrightarrow> c \<in> fst ` set d"
  by (force simp: first_max_def)

lemma pick_primary_cases:
  assumes "d \<noteq> []"
  shows "\<exists>p. pick_primary d = Inr p \<and>
           (if \<forall>x\<in>set d. snd x = 0 then p = ''other'' else first_max d p)"
proof (cases "\<forall>x\<in>set d. snd x = 0")
  case True
  then show ?thesis by (auto simp: pick_primary_def list_ex_iff)
next
  case False
  from py_max_key_total[OF assms, of snd] obtain m where m: "py_max_key snd d = Inr m" by blast
  from py_max_key_first_max[OF m] m False show ?thesis
    by (auto simp: pick_primary_def list_ex_iff)
qed

lemma frontend_pick_primary_cases:
  "\<exists>p. frontend_pick_primary d = Inr p \<and> (if d = [] then p = ''other'' else first_max d p)"
proof (cases "d = []")
  case True
  then show ?thesis by (simp add: frontend_pick_primary_def)
next
  case False
  from py_max_key_total[OF False, of snd] obtain m where m: "py_max_key snd d = Inr m" by blast
  from py_max_key_first_max[OF m] m False show ?thesis
    by (auto simp: frontend_pick_primary_def)
qed

lemma map_fst_score_triggers: "map fst (score_triggers ml) = categories"
  by (simp add: score_triggers_eq categories_def trigger_keywords_def)

lemma other_not_category: "''other'' \<notin> set categories"
  by (simp add: categories_def trigger_keywords_def)

lemma length_music_options: "length (music_options sev) = 3"
  by (simp add: music_options_def)

lemma pick_music_eq: "pick_music hash t sev = Inr (music_options sev ! nat (hash t mod 3))"
  by (simp add: pick_music_def list_get_def Let_def length_music_options)

lemma resolve_severity_tier: "severity_arg_ok sev0 \<Longrightarrow> resolve_severity sev0 ml \<in> set tiers"
  by (auto simp: severity_arg_ok_def resolve_severity_def auto_severity_def tiers_def split: option.splits)

lemma build_insight_ok:
  assumes "p \<in> set categories \<union> {''other''}" and "sev \<in> set tiers"
  shows "\<exists>by_severity specific.
           map_of trigger_insights p = Some by_severity \<and> map_of by_severity sev = Some specific \<and>
           build_insight p sev =
             Inr (base_insight sev @ '' '' @ specific @ '' '' @ closing_insight sev)"
proof -
  from assms(1) obtain by_severity where t: "map_of trigger_insights p = Some by_severity"
    and dom: "map fst by_severity = [''high'', ''medium'', ''low'']"
    by (auto simp: categories_def trigger_keywords_def trigger_insights_def)
  from dom assms(2) obtain specific where s: "map_of by_severity sev = Some specific"
    by (cases "map_of by_severity sev") (auto simp: tiers_def map_of_eq_None_iff)
  from t s show ?thesis by (simp add: build_insight_def dict_get_def)
qed

lemma mock_analyze_mood_ok:
  assumes "severity_arg_ok sev0"
  shows "\<exists>p insight.
           pick_primary (score_triggers (lower t)) = Inr p \<and>
           build_insight p (resolve_severity sev0 (lower t)) = Inr insight \<and>
           mock_analyze_mood lower hash md5 n1 n2 uid t sev0 =
             Inr \<lparr> success = True,
                   record_id = take 12 (md5 (uid @ n1)),
                   user_id = uid,
                   mood = Some t,
                   primary_trigger = p,
                   trigger_scores = score_triggers (lower t),
                   severity = resolve_severity sev0 (lower t),
                   advice = advice_text (resolve_severity sev0 (lower t)),
                   music_track = music_options (resolve_severity sev0 (lower t)) ! nat (hash t mod 3),
                   deep_insight = insight,
                   timestamp = n2,
                   private_note = None \<rparr>"
proof -
  have ne: "score_triggers (lower t) \<noteq> []"
    by (simp add: score_triggers_eq trigger_keywords_def)
  from pick_primary_cases[OF ne] obtain p where p: "pick_primary (score_triggers (lower t)) = Inr p"
    and pc: "if \<forall>x\<in>set (score_triggers (lower t)). snd x = 0 then p = ''other''
             else first_max (score_triggers (lower t)) p"
    by blast
  have "p \<in> set categories \<union> {''other''}"
  proof (cases "\<forall>x\<in>set (score_triggers (lower t)). snd x = 0")
    case True
    with pc show ?thesis by simp
  next
    case False
    with pc have "first_max (score_triggers (lower t)) p" by simp
    from first_max_key[OF this] have "p \<in> set (map fst (score_triggers (lower t)))" by simp
    then show ?thesis by (simp only: map_fst_score_triggers) simp
  qed
  from build_insight_ok[OF this resolve_severity_tier[OF assms]]
  obtain insight where i: "build_insight p (resolve_severity sev0 (lower t)) = Inr insight"
    by blast
  from p i show ?thesis
    by (simp add: mock_analyze_mood_def Let_def pick_music_eq)
qed

lemma frontend_analyze_mood_ok:
  "\<exists>p. frontend_pick_primary (frontend_score_triggers (lower t)) = Inr p \<and>
       frontend_analyze_mood lower n now uid t sev0 =
         Inr \<lparr> success = True,
               record_id = ''entry_'' @ str_of_nat (n + 1),
               user_id = uid,
               mood = None,
               primary_trigger = p,
               trigger_scores = frontend_score_triggers (lower t),
               severity = frontend_resolve_severity sev0 (lower t),
               advice = frontend_advice (frontend_resolve_severity sev0 (lower t)),
               music_track = frontend_music (frontend_resolve_severity sev0 (lower t)),
               deep_insight = frontend_insight (frontend_resolve_severity sev0 (lower t)),
               timestamp = now,
               private_note = None \<rparr>"
proof -
  from frontend_pick_primary_cases[of "frontend_score_triggers (lower t)"]
  obtain p where "frontend_pick_primary (frontend_score_triggers (lower t)) = Inr p" by blast
  then show ?thesis by (simp add: frontend_analyze_mood_def Let_def)
qed

lemma mock_analyze_mood_fields:
  assumes "severity_arg_ok sev0"
  shows "\<exists>r. mock_analyze_mood lower hash md5 n1 n2 uid t sev0 = Inr r \<and>
           pick_primary (score_triggers (lower t)) = Inr (primary_trigger r) \<and>
           trigger_scores r = score_triggers (lower t) \<and>
           severity r = resolve_severity sev0 (lower t) \<and>
           build_insight (primary_trigger r) (severity r) = Inr (deep_insight r) \<and>
           music_track r = music_options (severity r) ! nat (hash t mod 3) \<and>
           advice r = advice_text (severity r)"
  using mock_analyze_mood_ok[OF assms,
      where lower=lower and t=t and hash=hash and ?md5.0=md5 and uid=uid and ?n1.0=n1 and ?n2.0=n2]
  by auto

lemma frontend_analyze_mood_fields:
  "\<exists>r. frontend_analyze_mood lower n now uid t sev0 = Inr r \<and>
       frontend_pick_primary (frontend_score_triggers (lower t)) = Inr (primary_trigger r) \<and>
       trigger_scores r = frontend_score_triggers (lower t) \<and>
       severity r = frontend_resolve_severity sev0 (lower t) \<and>
       deep_insight r = frontend_insight (severity r) \<and>
       music_track r = frontend_music (severity r) \<and>
       advice r = frontend_advice (severity r)"
  using frontend_analyze_mood_ok[where lower=lower and t=t and n=n and now=now and uid=uid and ?sev0.0=sev0]
  by auto

lemma resolve_severity_explicit: "sev \<in> set tiers \<Longrightarrow> resolve_severity (Some sev) ml = sev"
  by (auto simp: resolve_severity_def tiers_def)

lemma frontend_resolve_severity_explicit:
  "sev \<in> set tiers \<Longrightarrow> frontend_resolve_severity (Some sev) ml = sev"
  by (auto simp: frontend_resolve_severity_def tiers_def)

section \<open>An explicit severity is kept\<close>

text \<open>
  Claim C4. For every mood text and every supplied severity among low, medium and high,
  both analysis functions return, and the result carries exactly the supplied severity:
  the keyword scan for a severity is skipped whatever the text contains.
\<close>

theorem explicit_severity_kept:
  assumes "sev \<in> set tiers"
  shows "(\<exists>r. mock_analyze_mood lower hash md5 n1 n2 uid t (Some sev) = Inr r \<and> severity r = sev) \<and>
         (\<exists>r. frontend_analyze_mood lower n now uid t (Some sev) = Inr r \<and> severity r = sev)"
proof
  have ok: "severity_arg_ok (Some sev)" using assms by (simp add: severity_arg_ok_def)
  from mock_analyze_mood_ok[OF ok, where lower=lower and t=t and hash=hash and ?md5.0=md5 and uid=uid and ?n1.0=n1 and ?n2.0=n2]
  show "\<exists>r. mock_analyze_mood lower hash md5 n1 n2 uid t (Some sev) = Inr r \<and> severity r = sev"
    by (auto simp: resolve_severity_explicit[OF assms])
next
  from frontend_analyze_mood_ok[where lower=lower and t=t and n=n and now=now and uid=uid and ?sev0.0="Some sev"]
  show "\<exists>r. frontend_analyze_mood lower n now uid t (Some sev) = Inr r \<and> severity r = sev"
    by (auto simp: frontend_resolve_severity_explicit[OF assms])
qed

theorem explicit_severity_kept_witness:
  "(\<exists>r. mock_analyze_mood ascii_lower (\<lambda>s. int (length s)) (\<lambda>s. s) ''t1'' ''t2'' ''ann''
          ''I feel hopeless'' (Some ''low'') = Inr r \<and> severity r = ''low'') \<and>
   (\<exists>r. frontend_analyze_mood ascii_lower 0 ''t1'' ''ann'' ''I feel hopeless'' (Some ''low'') = Inr r \<and>
        severity r = ''low'')"
proof -
  have h: "''low'' \<in> set tiers" by (simp add: tiers_def)
  from explicit_severity_kept[OF h] show ?thesis .
qed

section \<open>Keywords, scores and severity in the words of the specification\<close>

lemma high_words_lower: "list_all (\<lambda>kw. ascii_lower kw = kw) high_words"
  by code_simp

lemma medium_words_lower: "list_all (\<lambda>kw. ascii_lower kw = kw) medium_words"
  by code_simp

lemma stress_words_lower: "list_all (\<lambda>kw. ascii_lower kw = kw) stress_words"
  by code_simp

lemma trigger_keywords_lower:
  "list_all (\<lambda>(c, kws). list_all (\<lambda>kw. ascii_lower kw = kw) kws) trigger_keywords"
  by code_simp

lemma frontend_rules_lower:
  "list_all (\<lambda>(ws, c, w). list_all (\<lambda>kw. ascii_lower kw = kw) ws) frontend_rules"
  by code_simp

lemma trigger_keywords_distinct: "list_all (\<lambda>(c, kws). distinct kws) trigger_keywords"
  by code_simp

lemma frontend_rules_distinct: "distinct (map (\<lambda>r. fst (snd r)) frontend_rules)"
  by code_simp

lemma list_ex_str_in_lower:
  "list_ex (\<lambda>kw. str_in kw (lower t)) kws = (\<exists>kw\<in>set kws. ci_occurs lower kw t)"
  by (simp add: list_ex_iff str_in_ci)

lemma auto_severity_ci:
  "auto_severity (lower t) = claimed_severity lower high_words medium_words t"
  by (simp only: auto_severity_def claimed_severity_def list_ex_str_in_lower)

lemma frontend_auto_severity_ci:
  "frontend_resolve_severity None (lower t) =
     (if \<exists>kw\<in>set stress_words. ci_occurs lower kw t then ''high'' else ''medium'')"
  by (simp add: frontend_resolve_severity_def list_ex_str_in_lower)

lemma severity_words_ascii:
  assumes "ascii_faithful lower" and "is_ascii t"
  shows "\<forall>kw\<in>set (high_words @ medium_words @ stress_words).
           ci_occurs lower kw t = matches_ignoring_case kw t"
  using high_words_lower medium_words_lower stress_words_lower ci_occurs_ascii[OF assms]
  by (auto simp: list_all_iff)

lemma update_fresh: "k \<notin> fst ` set al \<Longrightarrow> AList.update k v al = al @ [(k, v)]"
  by (induction al) auto

lemma fold_rules:
  "distinct (map (\<lambda>r. fst (snd r)) rules) \<Longrightarrow>
   (\<lambda>r. fst (snd r)) ` set rules \<inter> fst ` set d0 = {} \<Longrightarrow>
   fold (\<lambda>(ws, c, w) d. if P ws then dict_set c w d else d) rules d0 =
     d0 @ map snd (filter (\<lambda>r. P (fst r)) rules)"
proof (induction rules arbitrary: d0)
  case Nil
  then show ?case by simp
next
  case (Cons a rules)
  obtain ws c w where a: "a = (ws, c, w)" by (cases a) auto
  from Cons.prems a have c: "c \<notin> fst ` set d0" and cr: "c \<notin> (\<lambda>r. fst (snd r)) ` set rules"
    and d: "distinct (map (\<lambda>r. fst (snd r)) rules)"
    and i: "(\<lambda>r. fst (snd r)) ` set rules \<inter> fst ` set d0 = {}"
    by auto
  show ?case
  proof (cases "P ws")
    case True
    have "(\<lambda>r. fst (snd r)) ` set rules \<inter> fst ` set (d0 @ [(c, w)]) = {}"
      using i cr by auto
    from Cons.IH[OF d this] True a c show ?thesis
      by (simp add: dict_set_def update_fresh)
  next
    case False
    from Cons.IH[OF d i] False a show ?thesis by simp
  qed
qed

lemma frontend_score_triggers_eq:
  "frontend_score_triggers ml =
     map snd (filter (\<lambda>r. list_ex (\<lambda>word. str_in word ml) (fst r)) frontend_rules)"
  unfolding frontend_score_triggers_def
  using fold_rules[OF frontend_rules_distinct, of "[]" "\<lambda>ws. list_ex (\<lambda>word. str_in word ml) ws"]
  by simp

lemma map_of_filter_rules:
  "distinct (map (\<lambda>r. fst (snd r)) rules) \<Longrightarrow> (ws, c, w) \<in> set rules \<Longrightarrow>
   map_of (map snd (filter Q rules)) c = (if Q (ws, c, w) then Some w else None)"
proof (induction rules)
  case Nil
  then show ?case by simp
next
  case (Cons a rules)
  obtain ws' c' w' where a: "a = (ws', c', w')" by (cases a) auto
  show ?case
  proof (cases "a = (ws, c, w)")
    case True
    with Cons.prems have "c \<notin> (\<lambda>r. fst (snd r)) ` set rules" by auto
    then have "c \<notin> fst ` set (map snd (filter Q rules))" by force
    then have "map_of (map snd (filter Q rules)) c = None"
      by (simp add: map_of_eq_None_iff)
    with True show ?thesis by simp
  next
    case False
    with Cons.prems a have m: "(ws, c, w) \<in> set rules" and "c' \<noteq> c"
      and "distinct (map (\<lambda>r. fst (snd r)) rules)"
      by force+
    with Cons.IH a show ?thesis by simp
  qed
qed

lemma keyword_score_card:
  assumes "distinct kws"
  shows "keyword_score kws (lower t) = claimed_score lower kws t"
proof -
  have "filter (\<lambda>kw. str_in kw (lower t)) kws = filter (\<lambda>kw. ci_occurs lower kw t) kws"
    by (simp add: str_in_ci)
  moreover have "card {kw \<in> set kws. ci_occurs lower kw t} =
                 length (filter (\<lambda>kw. ci_occurs lower kw t) kws)"
    using distinct_card[OF distinct_filter[OF assms, of "\<lambda>kw. ci_occurs lower kw t"]] by simp
  ultimately show ?thesis by (simp add: keyword_score_length claimed_score_def)
qed

lemma map_of_score_triggers:
  assumes "(c, kws) \<in> set trigger_keywords"
  shows "map_of (score_triggers ml) c = Some (keyword_score kws ml)"
proof -
  have "distinct (map fst trigger_keywords)" by (simp add: trigger_keywords_def)
  from map_of_is_SomeI[OF this assms] have "map_of trigger_keywords c = Some kws" .
  then show ?thesis
    by (simp add: score_triggers_eq map_of_map)
qed

lemma severity_arg_ok_None: "severity_arg_ok None"
  by (simp add: severity_arg_ok_def)

section \<open>Severity when none is supplied\<close>

text \<open>
  Claim C1, as amended. Called without a severity, \<^verbatim>\<open>mock_analyze_mood\<close> returns
  high when a keyword of its high list occurs in the text as a case-insensitive substring,
  whether or not a medium keyword occurs too; otherwise medium when a keyword of its medium
  list occurs; otherwise low. \<^verbatim>\<open>analyze_mood\<close> of \<^verbatim>\<open>mindmate_frontend.py\<close> has one
  list of stress words and no medium list: it returns high when a stress word occurs and
  medium otherwise, never low. This holds for every text and whatever \<^verbatim>\<open>str.lower\<close>
  does to it; for a text of ASCII characters, a keyword occurs exactly when some stretch of
  the text equals it up to the case of the letters.
\<close>

theorem severity_auto_detection:
  "(\<exists>r. mock_analyze_mood lower hash md5 n1 n2 uid t None = Inr r \<and>
        severity r = claimed_severity lower high_words medium_words t) \<and>
   (\<exists>r. frontend_analyze_mood lower n now uid t None = Inr r \<and>
        severity r = (if \<exists>kw\<in>set stress_words. ci_occurs lower kw t then ''high'' else ''medium'')) \<and>
   (ascii_faithful lower \<longrightarrow> is_ascii t \<longrightarrow>
      (\<forall>kw\<in>set (high_words @ medium_words @ stress_words).
          ci_occurs lower kw t = matches_ignoring_case kw t))"
proof (intro conjI impI)
  obtain r where r: "mock_analyze_mood lower hash md5 n1 n2 uid t None = Inr r"
    and sv: "severity r = resolve_severity None (lower t)"
    using mock_analyze_mood_fields[OF severity_arg_ok_None] by blast
  from sv have "severity r = claimed_severity lower high_words medium_words t"
    by (simp add: resolve_severity_def auto_severity_ci)
  with r show "\<exists>r. mock_analyze_mood lower hash md5 n1 n2 uid t None = Inr r \<and>
        severity r = claimed_severity lower high_words medium_words t"
    by blast
next
  obtain r where r: "frontend_analyze_mood lower n now uid t None = Inr r"
    and sv: "severity r = frontend_resolve_severity None (lower t)"
    using frontend_analyze_mood_fields by blast
  from sv have "severity r =
      (if \<exists>kw\<in>set stress_words. ci_occurs lower kw t then ''high'' else ''medium'')"
    by (simp only: frontend_auto_severity_ci)
  with r show "\<exists>r. frontend_analyze_mood lower n now uid t None = Inr r \<and>
        severity r = (if \<exists>kw\<in>set stress_words. ci_occurs lower kw t then ''high'' else ''medium'')"
    by blast
next
  assume "ascii_faithful lower" and "is_ascii t"
  then show "\<forall>kw\<in>set (high_words @ medium_words @ stress_words).
          ci_occurs lower kw t = matches_ignoring_case kw t"
    by (rule severity_words_ascii)
qed

theorem severity_auto_detection_witness:
  "(\<exists>r. mock_analyze_mood ascii_lower (\<lambda>s. int (length s)) (\<lambda>s. s) ''t1'' ''t2'' ''ann''
          ''CRISIS: I am stressed'' None = Inr r \<and> severity r = ''high'') \<and>
   (\<exists>r. frontend_analyze_mood ascii_lower 0 ''t1'' ''ann'' ''CRISIS: I am stressed'' None = Inr r \<and>
        severity r = ''high'') \<and>
   matches_ignoring_case ''crisis'' ''CRISIS: I am stressed''"
proof -
  have af: "ascii_faithful ascii_lower"
    by (simp add: ascii_faithful_def)
  have ia: "is_ascii ''CRISIS: I am stressed''"
    by code_simp
  have kw: "''crisis'' \<in> set (high_words @ medium_words @ stress_words)"
    by (simp add: high_words_def)
  have oc: "ci_occurs ascii_lower ''crisis'' ''CRISIS: I am stressed''"
    unfolding str_in_ci[symmetric] by code_simp
  have h: "\<exists>kw\<in>set high_words. ci_occurs ascii_lower kw ''CRISIS: I am stressed''"
    unfolding list_ex_str_in_lower[symmetric] by code_simp
  have s: "\<exists>kw\<in>set stress_words. ci_occurs ascii_lower kw ''CRISIS: I am stressed''"
    unfolding list_ex_str_in_lower[symmetric] by code_simp
  from h have c: "claimed_severity ascii_lower high_words medium_words ''CRISIS: I am stressed''
                    = ''high''"
    by (simp only: claimed_severity_def if_True)
  note w = severity_auto_detection[where lower=ascii_lower and t="''CRISIS: I am stressed''"
      and hash="\<lambda>s. int (length s)" and ?md5.0="\<lambda>s. s" and ?n1.0="''t1''" and ?n2.0="''t2''"
      and uid="''ann''" and n=0 and now="''t1''"]
  from w af ia kw oc have m: "matches_ignoring_case ''crisis'' ''CRISIS: I am stressed''"
    by blast
  from w have "(\<exists>r. mock_analyze_mood ascii_lower (\<lambda>s. int (length s)) (\<lambda>s. s) ''t1'' ''t2'' ''ann''
          ''CRISIS: I am stressed'' None = Inr r \<and> severity r = ''high'') \<and>
   (\<exists>r. frontend_analyze_mood ascii_lower 0 ''t1'' ''ann'' ''CRISIS: I am stressed'' None = Inr r \<and>
        severity r = ''high'')"
    by (simp only: c s if_True)
  with m show ?thesis by blast
qed

text \<open>
  The claim as stated fails on \<^verbatim>\<open>analyze_mood\<close> of \<^verbatim>\<open>mindmate_frontend.py\<close>: a text
  without any severity keyword is rated medium, where the claim says low. The text is
  ASCII, so \<^verbatim>\<open>str.lower\<close> is \<open>ascii_lower\<close> on it.
\<close>

theorem frontend_severity_counterexample:
  "map_sum id severity
     (frontend_analyze_mood ascii_lower 0 ''t1'' ''ann'' ''I feel calm today'' None)
     \<noteq> Inr (claimed_severity ascii_lower stress_words [] ''I feel calm today'')"
proof -
  have "\<not> (\<exists>kw\<in>set stress_words. ci_occurs ascii_lower kw ''I feel calm today'')"
    unfolding list_ex_str_in_lower[symmetric] by code_simp
  then have c: "claimed_severity ascii_lower stress_words [] ''I feel calm today'' = ''low''"
    by (simp add: claimed_severity_def)
  have "map_sum id severity
          (frontend_analyze_mood ascii_lower 0 ''t1'' ''ann'' ''I feel calm today'' None)
          = Inr ''medium''"
    by code_simp
  with c show ?thesis by simp
qed

section \<open>Trigger scores\<close>

lemma claimed_score_eq:
  "distinct kws \<Longrightarrow> claimed_score lower kws t = keyword_score kws (lower t)"
  by (simp add: keyword_score_card)

lemma table_words_ascii:
  assumes "ascii_faithful lower" and "is_ascii t"
  shows "(\<forall>(c, kws)\<in>set trigger_keywords. \<forall>kw\<in>set kws.
            ci_occurs lower kw t = matches_ignoring_case kw t) \<and>
         (\<forall>(ws, c, w)\<in>set frontend_rules. \<forall>kw\<in>set ws.
            ci_occurs lower kw t = matches_ignoring_case kw t)"
proof (intro conjI ballI)
  fix x assume "x \<in> set trigger_keywords"
  with trigger_keywords_lower have "\<forall>kw\<in>set (snd x). ascii_lower kw = kw"
    by (cases x) (fastforce simp: list_all_iff)
  with ci_occurs_ascii[OF assms]
  show "case x of (c, kws) \<Rightarrow> \<forall>kw\<in>set kws. ci_occurs lower kw t = matches_ignoring_case kw t"
    by (cases x) auto
next
  fix x assume "x \<in> set frontend_rules"
  with frontend_rules_lower have "\<forall>kw\<in>set (fst x). ascii_lower kw = kw"
    by (cases x) (fastforce simp: list_all_iff)
  with ci_occurs_ascii[OF assms]
  show "case x of (ws, c, w) \<Rightarrow> \<forall>kw\<in>set ws. ci_occurs lower kw t = matches_ignoring_case kw t"
    by (cases x) auto
qed

text \<open>
  Claim C2, as amended. In the result of \<^verbatim>\<open>mock_analyze_mood\<close> the keys of
  \<^verbatim>\<open>trigger_scores\<close> are the fixed categories, and the score of each category is the
  number of its keywords that occur in the text as case-insensitive substrings. In the
  result of \<^verbatim>\<open>analyze_mood\<close> of \<^verbatim>\<open>mindmate_frontend.py\<close> a category has an entry only
  when one of its words occurs, and the entry is the fixed weight of the category, not a
  count. This holds for every text and whatever \<^verbatim>\<open>str.lower\<close> does to it; for a text of
  ASCII characters, a keyword occurs exactly when some stretch of the text equals it up to
  the case of the letters.
\<close>

theorem trigger_score_semantics:
  assumes "severity_arg_ok sev0"
  shows "(\<exists>r. mock_analyze_mood lower hash md5 n1 n2 uid t sev0 = Inr r \<and>
              map fst (trigger_scores r) = categories \<and>
              (\<forall>(c, kws)\<in>set trigger_keywords.
                  map_of (trigger_scores r) c = Some (claimed_score lower kws t))) \<and>
         (\<exists>r. frontend_analyze_mood lower n now uid t sev0 = Inr r \<and>
              (\<forall>(ws, c, w)\<in>set frontend_rules.
                  map_of (trigger_scores r) c =
                    (if \<exists>kw\<in>set ws. ci_occurs lower kw t then Some w else None))) \<and>
         (ascii_faithful lower \<longrightarrow> is_ascii t \<longrightarrow>
            (\<forall>(c, kws)\<in>set trigger_keywords. \<forall>kw\<in>set kws.
                ci_occurs lower kw t = matches_ignoring_case kw t) \<and>
            (\<forall>(ws, c, w)\<in>set frontend_rules. \<forall>kw\<in>set ws.
                ci_occurs lower kw t = matches_ignoring_case kw t))"
proof (intro conjI impI)
  have s: "map_of (score_triggers (lower t)) c = Some (claimed_score lower kws t)"
    if "(c, kws) \<in> set trigger_keywords" for c kws
  proof -
    from trigger_keywords_distinct that have "distinct kws"
      by (auto simp: list_all_iff)
    from claimed_score_eq[OF this] map_of_score_triggers[OF that] show ?thesis by simp
  qed
  obtain r where r: "mock_analyze_mood lower hash md5 n1 n2 uid t sev0 = Inr r"
    and ts: "trigger_scores r = score_triggers (lower t)"
    using mock_analyze_mood_fields[OF assms] by blast
  from s have "\<forall>(c, kws)\<in>set trigger_keywords.
                  map_of (trigger_scores r) c = Some (claimed_score lower kws t)"
    unfolding ts by blast
  moreover have "map fst (trigger_scores r) = categories"
    unfolding ts by (rule map_fst_score_triggers)
  ultimately
  show "\<exists>r. mock_analyze_mood lower hash md5 n1 n2 uid t sev0 = Inr r \<and>
              map fst (trigger_scores r) = categories \<and>
              (\<forall>(c, kws)\<in>set trigger_keywords.
                  map_of (trigger_scores r) c = Some (claimed_score lower kws t))"
    using r by blast
next
  have s: "map_of (frontend_score_triggers (lower t)) c =
          (if \<exists>kw\<in>set ws. ci_occurs lower kw t then Some w else None)"
    if "(ws, c, w) \<in> set frontend_rules" for ws c w
    using map_of_filter_rules[OF frontend_rules_distinct that,
        of "\<lambda>r. list_ex (\<lambda>word. str_in word (lower t)) (fst r)"]
    by (simp add: frontend_score_triggers_eq list_ex_str_in_lower)
  obtain r where r: "frontend_analyze_mood lower n now uid t sev0 = Inr r"
    and ts: "trigger_scores r = frontend_score_triggers (lower t)"
    using frontend_analyze_mood_fields by blast
  from s have "\<forall>(ws, c, w)\<in>set frontend_rules.
                  map_of (trigger_scores r) c =
                    (if \<exists>kw\<in>set ws. ci_occurs lower kw t then Some w else None)"
    unfolding ts by blast
  with r
  show "\<exists>r. frontend_analyze_mood lower n now uid t sev0 = Inr r \<and>
              (\<forall>(ws, c, w)\<in>set frontend_rules.
                  map_of (trigger_scores r) c =
                    (if \<exists>kw\<in>set ws. ci_occurs lower kw t then Some w else None))"
    by blast
next
  assume "ascii_faithful lower" and "is_ascii t"
  from table_words_ascii[OF this]
  show "\<forall>(c, kws)\<in>set trigger_keywords. \<forall>kw\<in>set kws.
                ci_occurs lower kw t = matches_ignoring_case kw t"
    by blast
next
  assume "ascii_faithful lower" and "is_ascii t"
  from table_words_ascii[OF this]
  show "\<forall>(ws, c, w)\<in>set frontend_rules. \<forall>kw\<in>set ws.
                ci_occurs lower kw t = matches_ignoring_case kw t"
    by blast
qed

lemma exam_score:
  "claimed_score ascii_lower [''exam'', ''school'', ''study'', ''grade'', ''homework'', ''test'']
     ''My EXAM and my homework'' = 2"
proof -
  have "claimed_score ascii_lower [''exam'', ''school'', ''study'', ''grade'', ''homework'', ''test'']
     ''My EXAM and my homework'' = keyword_score [''exam'', ''school'', ''study'', ''grade'', ''homework'', ''test'']
     (ascii_lower ''My EXAM and my homework'')"
    by (rule claimed_score_eq) code_simp
  also have "\<dots> = 2" by code_simp
  finally show ?thesis .
qed

theorem trigger_score_semantics_witness:
  "(\<exists>r. mock_analyze_mood ascii_lower (\<lambda>s. int (length s)) (\<lambda>s. s) ''t1'' ''t2'' ''ann''
          ''My EXAM and my homework'' None = Inr r \<and>
        map_of (trigger_scores r) ''academic'' = Some 2) \<and>
   matches_ignoring_case ''exam'' ''My EXAM and my homework''"
proof -
  have m: "(''academic'', [''exam'', ''school'', ''study'', ''grade'', ''homework'', ''test''])
             \<in> set trigger_keywords"
    by (simp add: trigger_keywords_def)
  have af: "ascii_faithful ascii_lower"
    by (simp add: ascii_faithful_def)
  have ia: "is_ascii ''My EXAM and my homework''"
    by code_simp
  have oc: "ci_occurs ascii_lower ''exam'' ''My EXAM and my homework''"
    unfolding str_in_ci[symmetric] by code_simp
  note w = trigger_score_semantics[OF severity_arg_ok_None,
      where lower=ascii_lower and t="''My EXAM and my homework''" and hash="\<lambda>s. int (length s)"
        and ?md5.0="\<lambda>s. s" and ?n1.0="''t1''" and ?n2.0="''t2''" and uid="''ann''"]
  from w obtain r where "mock_analyze_mood ascii_lower (\<lambda>s. int (length s)) (\<lambda>s. s) ''t1'' ''t2''
          ''ann'' ''My EXAM and my homework'' None = Inr r"
    and "\<forall>(c, kws)\<in>set trigger_keywords.
            map_of (trigger_scores r) c =
              Some (claimed_score ascii_lower kws ''My EXAM and my homework'')"
    by blast
  with m exam_score
  have a: "\<exists>r. mock_analyze_mood ascii_lower (\<lambda>s. int (length s)) (\<lambda>s. s) ''t1'' ''t2'' ''ann''
          ''My EXAM and my homework'' None = Inr r \<and>
        map_of (trigger_scores r) ''academic'' = Some 2"
    by fastforce
  from w af ia
  have "\<forall>(c, kws)\<in>set trigger_keywords. \<forall>kw\<in>set kws.
          ci_occurs ascii_lower kw ''My EXAM and my homework''
            = matches_ignoring_case kw ''My EXAM and my homework''"
    by blast
  with m oc have "matches_ignoring_case ''exam'' ''My EXAM and my homework''"
    by fastforce
  with a show ?thesis by blast
qed

text \<open>
  The claim as stated fails on \<^verbatim>\<open>analyze_mood\<close> of \<^verbatim>\<open>mindmate_frontend.py\<close>: two of
  the political words occur in the text, and the score is the weight 0.8. The text is
  ASCII, so \<^verbatim>\<open>str.lower\<close> is \<open>ascii_lower\<close> on it.
\<close>

theorem frontend_score_counterexample:
  "map_sum id (\<lambda>r. map_of (trigger_scores r) ''political'')
     (frontend_analyze_mood ascii_lower 0 ''t1'' ''ann'' ''the election and politics'' None)
   \<noteq> Inr (Some (of_int (claimed_score ascii_lower [''election'', ''government'', ''politics'']
                          ''the election and politics'')))"
proof -
  have "claimed_score ascii_lower [''election'', ''government'', ''politics'']
          ''the election and politics''
          = keyword_score [''election'', ''government'', ''politics'']
              (ascii_lower ''the election and politics'')"
    by (rule claimed_score_eq) code_simp
  also have "\<dots> = 2" by code_simp
  finally have c: "claimed_score ascii_lower [''election'', ''government'', ''politics'']
                     ''the election and politics'' = 2" .
  have "map_sum id (\<lambda>r. map_of (trigger_scores r) ''political'')
          (frontend_analyze_mood ascii_lower 0 ''t1'' ''ann'' ''the election and politics'' None)
        = Inr (Some (8 / 10))"
    by code_simp
  with c show ?thesis by simp
qed

section \<open>The primary trigger\<close>

lemma score_triggers_nonempty: "score_triggers ml \<noteq> []"
  by (simp add: score_triggers_eq trigger_keywords_def)

lemma pick_primary_other:
  assumes "pick_primary (score_triggers ml) = Inr p"
  shows "(p = ''other'' \<longleftrightarrow> (\<forall>x\<in>set (score_triggers ml). snd x = 0)) \<and>
         (p \<noteq> ''other'' \<longrightarrow> first_max (score_triggers ml) p) \<and>
         p \<in> set categories \<union> {''other''}"
proof (cases "\<forall>x\<in>set (score_triggers ml). snd x = 0")
  case True
  with pick_primary_cases[OF score_triggers_nonempty, of ml] assms show ?thesis by auto
next
  case False
  with pick_primary_cases[OF score_triggers_nonempty, of ml] assms
  have fm: "first_max (score_triggers ml) p" by auto
  from first_max_key[OF fm] have "p \<in> set (map fst (score_triggers ml))" by simp
  then have "p \<in> set categories" by (simp only: map_fst_score_triggers)
  with other_not_category False fm show ?thesis by auto
qed

lemma frontend_scores_subset: "set (frontend_score_triggers ml) \<subseteq> snd ` set frontend_rules"
  by (auto simp: frontend_score_triggers_eq)

lemma frontend_rules_weights: "\<forall>x\<in>snd ` set frontend_rules. snd x \<noteq> 0 \<and> fst x \<in> set categories"
  by (simp add: frontend_rules_def categories_def trigger_keywords_def)

lemma frontend_pick_primary_other:
  assumes "frontend_pick_primary (frontend_score_triggers ml) = Inr p"
  shows "(p = ''other'' \<longleftrightarrow> (\<forall>x\<in>set (frontend_score_triggers ml). snd x = 0)) \<and>
         (p \<noteq> ''other'' \<longrightarrow> first_max (frontend_score_triggers ml) p) \<and>
         p \<in> set categories \<union> {''other''}"
proof (cases "frontend_score_triggers ml = []")
  case True
  with frontend_pick_primary_cases[of "frontend_score_triggers ml"] assms show ?thesis by auto
next
  case False
  with frontend_pick_primary_cases[of "frontend_score_triggers ml"] assms
  have fm: "first_max (frontend_score_triggers ml) p" by auto
  from first_max_key[OF fm] frontend_scores_subset frontend_rules_weights
  have pc: "p \<in> set categories" by fastforce
  from False obtain x where "x \<in> set (frontend_score_triggers ml)"
    by (cases "frontend_score_triggers ml") auto
  with frontend_scores_subset frontend_rules_weights
  have "\<not> (\<forall>x\<in>set (frontend_score_triggers ml). snd x = 0)" by blast
  with pc other_not_category fm show ?thesis by auto
qed

lemma frontend_scores_order:
  "subseq (map fst (frontend_score_triggers ml)) (map (\<lambda>r. fst (snd r)) frontend_rules)"
proof -
  have "subseq (filter (\<lambda>r. list_ex (\<lambda>word. str_in word ml) (fst r)) frontend_rules) frontend_rules"
    by simp
  from subseq_map[OF this, of "\<lambda>r. fst (snd r)"] show ?thesis
    by (simp add: frontend_score_triggers_eq comp_def)
qed

text \<open>
  Claim C3. In both analysis functions the primary trigger is "other" exactly when every
  trigger score is zero; otherwise it is the category with the greatest score, and among
  several categories with that score the first in the fixed order of the category table.
  \<^verbatim>\<open>mock_analyze_mood\<close> scores every category, in table order. \<^verbatim>\<open>analyze_mood\<close> of
  \<^verbatim>\<open>mindmate_frontend.py\<close> scores only the categories that matched, in the order of its
  table, each with a positive weight, so all scores are zero exactly when there is none.
\<close>

theorem primary_trigger_first_max:
  assumes "severity_arg_ok sev0"
  shows "(\<exists>r. mock_analyze_mood lower hash md5 n1 n2 uid t sev0 = Inr r \<and>
              map fst (trigger_scores r) = categories \<and>
              (primary_trigger r = ''other'' \<longleftrightarrow> (\<forall>x\<in>set (trigger_scores r). snd x = 0)) \<and>
              (primary_trigger r \<noteq> ''other'' \<longrightarrow>
                 first_max (trigger_scores r) (primary_trigger r))) \<and>
         (\<exists>r. frontend_analyze_mood lower n now uid t sev0 = Inr r \<and>
              subseq (map fst (trigger_scores r)) (map (\<lambda>r. fst (snd r)) frontend_rules) \<and>
              (primary_trigger r = ''other'' \<longleftrightarrow> (\<forall>x\<in>set (trigger_scores r). snd x = 0)) \<and>
              (primary_trigger r \<noteq> ''other'' \<longrightarrow>
                 first_max (trigger_scores r) (primary_trigger r)))"
proof
  obtain r where r: "mock_analyze_mood lower hash md5 n1 n2 uid t sev0 = Inr r"
    and p: "pick_primary (score_triggers (lower t)) = Inr (primary_trigger r)"
    and ts: "trigger_scores r = score_triggers (lower t)"
    using mock_analyze_mood_fields[OF assms] by blast
  from pick_primary_other[OF p] map_fst_score_triggers[of "lower t"] r
  show "\<exists>r. mock_analyze_mood lower hash md5 n1 n2 uid t sev0 = Inr r \<and>
              map fst (trigger_scores r) = categories \<and>
              (primary_trigger r = ''other'' \<longleftrightarrow> (\<forall>x\<in>set (trigger_scores r). snd x = 0)) \<and>
              (primary_trigger r \<noteq> ''other'' \<longrightarrow>
                 first_max (trigger_scores r) (primary_trigger r))"
    unfolding ts[symmetric] by blast
next
  obtain r where r: "frontend_analyze_mood lower n now uid t sev0 = Inr r"
    and p: "frontend_pick_primary (frontend_score_triggers (lower t)) = Inr (primary_trigger r)"
    and ts: "trigger_scores r = frontend_score_triggers (lower t)"
    using frontend_analyze_mood_fields by blast
  from frontend_pick_primary_other[OF p] frontend_scores_order[of "lower t"] r
  show "\<exists>r. frontend_analyze_mood lower n now uid t sev0 = Inr r \<and>
              subseq (map fst (trigger_scores r)) (map (\<lambda>r. fst (snd r)) frontend_rules) \<and>
              (primary_trigger r = ''other'' \<longleftrightarrow> (\<forall>x\<in>set (trigger_scores r). snd x = 0)) \<and>
              (primary_trigger r \<noteq> ''other'' \<longrightarrow>
                 first_max (trigger_scores r) (primary_trigger r))"
    unfolding ts[symmetric] by blast
qed

theorem primary_trigger_first_max_witness:
  "(\<exists>r. mock_analyze_mood ascii_lower (\<lambda>s. int (length s)) (\<lambda>s. s) ''t1'' ''t2'' ''ann''
          ''my boss and the election'' None = Inr r \<and>
        primary_trigger r = ''political'' \<and> first_max (trigger_scores r) ''political'') \<and>
   (\<exists>r. frontend_analyze_mood ascii_lower 0 ''t1'' ''ann'' ''my boss and the election'' None = Inr r \<and>
        primary_trigger r = ''political'' \<and> first_max (trigger_scores r) ''political'')"
proof -
  have m: "map_sum id primary_trigger (mock_analyze_mood ascii_lower (\<lambda>s. int (length s)) (\<lambda>s. s) ''t1'' ''t2''
             ''ann'' ''my boss and the election'' None) = Inr ''political''"
    by code_simp
  have f: "map_sum id primary_trigger (frontend_analyze_mood ascii_lower 0 ''t1'' ''ann''
             ''my boss and the election'' None) = Inr ''political''"
    by code_simp
  from primary_trigger_first_max[OF severity_arg_ok_None,
      where lower=ascii_lower and t="''my boss and the election''" and hash="\<lambda>s. int (length s)" and ?md5.0="\<lambda>s. s"
        and ?n1.0="''t1''" and ?n2.0="''t2''" and uid="''ann''" and n=0 and now="''t1''"]
  obtain r q where r: "mock_analyze_mood ascii_lower (\<lambda>s. int (length s)) (\<lambda>s. s) ''t1'' ''t2'' ''ann''
          ''my boss and the election'' None = Inr r"
    and ri: "primary_trigger r \<noteq> ''other'' \<longrightarrow> first_max (trigger_scores r) (primary_trigger r)"
    and q: "frontend_analyze_mood ascii_lower 0 ''t1'' ''ann'' ''my boss and the election'' None = Inr q"
    and qi: "primary_trigger q \<noteq> ''other'' \<longrightarrow> first_max (trigger_scores q) (primary_trigger q)"
    by blast
  from m r have rp: "primary_trigger r = ''political''" by simp
  from f q have qp: "primary_trigger q = ''political''" by simp
  from ri rp have "first_max (trigger_scores r) ''political''" by simp
  moreover from qi qp have "first_max (trigger_scores q) ''political''" by simp
  ultimately show ?thesis using r q rp qp by blast
qed

section \<open>Invariants of a result\<close>

lemma frontend_resolve_severity_tier:
  "severity_arg_ok sev0 \<Longrightarrow> frontend_resolve_severity sev0 ml \<in> set tiers"
  by (auto simp: severity_arg_ok_def frontend_resolve_severity_def tiers_def Let_def
      split: option.splits)

text \<open>
  Claim C9. For any mood text and a severity argument that is absent or one of the three
  tiers, both analysis functions return a record whose severity is low, medium or high,
  whose primary trigger is a fixed category or "other", and whose trigger scores have only
  fixed categories as keys.
\<close>

theorem result_invariants:
  assumes "severity_arg_ok sev0"
  shows "(\<exists>r. mock_analyze_mood lower hash md5 n1 n2 uid t sev0 = Inr r \<and>
              severity r \<in> set tiers \<and>
              primary_trigger r \<in> set categories \<union> {''other''} \<and>
              fst ` set (trigger_scores r) \<subseteq> set categories) \<and>
         (\<exists>r. frontend_analyze_mood lower n now uid t sev0 = Inr r \<and>
              severity r \<in> set tiers \<and>
              primary_trigger r \<in> set categories \<union> {''other''} \<and>
              fst ` set (trigger_scores r) \<subseteq> set categories)"
proof
  obtain r where r: "mock_analyze_mood lower hash md5 n1 n2 uid t sev0 = Inr r"
    and p: "pick_primary (score_triggers (lower t)) = Inr (primary_trigger r)"
    and ts: "trigger_scores r = score_triggers (lower t)"
    and sv: "severity r = resolve_severity sev0 (lower t)"
    using mock_analyze_mood_fields[OF assms] by blast
  have "fst ` set (trigger_scores r) = set categories"
    unfolding ts using map_fst_score_triggers[of "lower t"] by (metis set_map)
  with pick_primary_other[OF p] resolve_severity_tier[OF assms, of "lower t"] r sv
  show "\<exists>r. mock_analyze_mood lower hash md5 n1 n2 uid t sev0 = Inr r \<and>
              severity r \<in> set tiers \<and>
              primary_trigger r \<in> set categories \<union> {''other''} \<and>
              fst ` set (trigger_scores r) \<subseteq> set categories"
    by auto
next
  obtain r where r: "frontend_analyze_mood lower n now uid t sev0 = Inr r"
    and p: "frontend_pick_primary (frontend_score_triggers (lower t)) = Inr (primary_trigger r)"
    and ts: "trigger_scores r = frontend_score_triggers (lower t)"
    and sv: "severity r = frontend_resolve_severity sev0 (lower t)"
    using frontend_analyze_mood_fields by blast
  have "fst ` set (trigger_scores r) \<subseteq> set categories"
    unfolding ts using frontend_scores_subset[of "lower t"] frontend_rules_weights by fastforce
  with frontend_pick_primary_other[OF p] frontend_resolve_severity_tier[OF assms, of "lower t"] r sv
  show "\<exists>r. frontend_analyze_mood lower n now uid t sev0 = Inr r \<and>
              severity r \<in> set tiers \<and>
              primary_trigger r \<in> set categories \<union> {''other''} \<and>
              fst ` set (trigger_scores r) \<subseteq> set categories"
    by auto
qed

theorem result_invariants_witness:
  "(\<exists>r. mock_analyze_mood ascii_lower (\<lambda>s. int (length s)) (\<lambda>s. s) ''t1'' ''t2'' ''ann''
          ''Money worries'' (Some ''medium'') = Inr r \<and>
        severity r \<in> set tiers \<and>
        primary_trigger r \<in> set categories \<union> {''other''} \<and>
        fst ` set (trigger_scores r) \<subseteq> set categories) \<and>
   (\<exists>r. frontend_analyze_mood ascii_lower 4 ''t1'' ''ann'' ''Money worries'' (Some ''medium'') = Inr r \<and>
        severity r \<in> set tiers \<and>
        primary_trigger r \<in> set categories \<union> {''other''} \<and>
        fst ` set (trigger_scores r) \<subseteq> set categories)"
proof -
  have h: "severity_arg_ok (Some ''medium'')"
    by (simp add: severity_arg_ok_def tiers_def)
  from result_invariants[OF h] show ?thesis .
qed

section \<open>The user id does not influence the analysis\<close>

text \<open>
  Claim C10. Two calls with the same mood text and the same severity argument, for
  different users (and at different times, so with different record ids), return the same
  primary trigger, trigger scores, severity, advice, music track and insight, or fail
  alike. Both calls use the same built-ins: \<^verbatim>\<open>str.lower\<close> and, for
  \<^verbatim>\<open>mock_analyze_mood\<close>, the \<^verbatim>\<open>hash\<close> of one interpreter process.
\<close>

theorem user_id_independence:
  "map_sum id analysis_fields (mock_analyze_mood lower hash md5 n1 n2 uid t sev0) =
     map_sum id analysis_fields (mock_analyze_mood lower hash md5' n1' n2' uid' t sev0) \<and>
   map_sum id analysis_fields (frontend_analyze_mood lower n now uid t sev0) =
     map_sum id analysis_fields (frontend_analyze_mood lower n' now' uid' t sev0)"
  by (simp add: mock_analyze_mood_def frontend_analyze_mood_def Let_def analysis_fields_def
      split: sum.splits)

theorem user_id_independence_witness:
  "map_sum id analysis_fields
     (mock_analyze_mood ascii_lower (\<lambda>s. int (length s)) (\<lambda>s. s) ''t1'' ''t2'' ''ann'' ''my job'' None) =
   map_sum id analysis_fields
     (mock_analyze_mood ascii_lower (\<lambda>s. int (length s)) (\<lambda>s. s) ''t3'' ''t4'' ''bob'' ''my job'' None) \<and>
   map_sum id analysis_fields (frontend_analyze_mood ascii_lower 0 ''t1'' ''ann'' ''my job'' None) =
   map_sum id analysis_fields (frontend_analyze_mood ascii_lower 7 ''t3'' ''bob'' ''my job'' None)"
  by (rule user_id_independence)

section \<open>The music track\<close>

lemma music_track_member: "music_options sev ! nat (h mod 3) \<in> set (music_options sev)"
  by (rule nth_mem) (simp add: length_music_options)

text \<open>
  Claim C5, as amended. For a severity argument that is absent or a tier,
  \<^verbatim>\<open>mock_analyze_mood\<close> picks the music track from the list of three candidates of the
  result's severity, at the index \<^verbatim>\<open>hash(mood_text) % 3\<close>; the pick is a function of the
  text and the severity alone (for the \<^verbatim>\<open>hash\<close> of one interpreter process), the same
  for another user at another time, and the trigger plays no part.
  \<^verbatim>\<open>analyze_mood\<close> of \<^verbatim>\<open>mindmate_frontend.py\<close> has one fixed track for each severity
  and no list to choose from; its pick is a function of the severity alone.
\<close>

theorem music_pick:
  assumes "severity_arg_ok sev0"
  shows "(\<exists>r. mock_analyze_mood lower hash md5 n1 n2 uid t sev0 = Inr r \<and>
              length (music_options (severity r)) = 3 \<and>
              music_track r = music_options (severity r) ! nat (hash t mod 3) \<and>
              music_track r \<in> set (music_options (severity r)) \<and>
              map_sum id music_track (mock_analyze_mood lower hash md5' n1' n2' uid' t sev0) =
                Inr (music_track r)) \<and>
         (\<exists>r. frontend_analyze_mood lower n now uid t sev0 = Inr r \<and>
              music_track r = frontend_music (severity r) \<and>
              map_sum id music_track (frontend_analyze_mood lower n' now' uid' t sev0) =
                Inr (music_track r))"
proof
  obtain r where r: "mock_analyze_mood lower hash md5 n1 n2 uid t sev0 = Inr r"
    and sv: "severity r = resolve_severity sev0 (lower t)"
    and mt: "music_track r = music_options (severity r) ! nat (hash t mod 3)"
    using mock_analyze_mood_fields[OF assms] by blast
  obtain r' where r': "mock_analyze_mood lower hash md5' n1' n2' uid' t sev0 = Inr r'"
    and sv': "severity r' = resolve_severity sev0 (lower t)"
    and mt': "music_track r' = music_options (severity r') ! nat (hash t mod 3)"
    using mock_analyze_mood_fields[OF assms] by blast
  from sv sv' mt mt' have "music_track r' = music_track r" by simp
  with r' have "map_sum id music_track (mock_analyze_mood lower hash md5' n1' n2' uid' t sev0) =
                Inr (music_track r)" by simp
  with r mt music_track_member[of "severity r" "hash t"] length_music_options[of "severity r"]
  show "\<exists>r. mock_analyze_mood lower hash md5 n1 n2 uid t sev0 = Inr r \<and>
              length (music_options (severity r)) = 3 \<and>
              music_track r = music_options (severity r) ! nat (hash t mod 3) \<and>
              music_track r \<in> set (music_options (severity r)) \<and>
              map_sum id music_track (mock_analyze_mood lower hash md5' n1' n2' uid' t sev0) =
                Inr (music_track r)"
    by auto
next
  obtain r where r: "frontend_analyze_mood lower n now uid t sev0 = Inr r"
    and sv: "severity r = frontend_resolve_severity sev0 (lower t)"
    and mt: "music_track r = frontend_music (severity r)"
    using frontend_analyze_mood_fields by blast
  obtain r' where r': "frontend_analyze_mood lower n' now' uid' t sev0 = Inr r'"
    and sv': "severity r' = frontend_resolve_severity sev0 (lower t)"
    and mt': "music_track r' = frontend_music (severity r')"
    using frontend_analyze_mood_fields by blast
  from sv sv' mt mt' have "music_track r' = music_track r" by simp
  with r' have "map_sum id music_track (frontend_analyze_mood lower n' now' uid' t sev0) =
                Inr (music_track r)" by simp
  with r mt
  show "\<exists>r. frontend_analyze_mood lower n now uid t sev0 = Inr r \<and>
              music_track r = frontend_music (severity r) \<and>
              map_sum id music_track (frontend_analyze_mood lower n' now' uid' t sev0) =
                Inr (music_track r)"
    by auto
qed

theorem music_pick_witness:
  "(\<exists>r. mock_analyze_mood ascii_lower (\<lambda>s. int (length s)) (\<lambda>s. s) ''t1'' ''t2'' ''ann''
          ''very upset'' None = Inr r \<and>
        music_track r = ''Pure Shores - All Saints (relaxing)'') \<and>
   (\<exists>r. frontend_analyze_mood ascii_lower 0 ''t1'' ''ann'' ''very upset'' None = Inr r \<and>
        music_track r = ''Clair de Lune - Debussy'')"
proof -
  have m: "map_sum id severity (mock_analyze_mood ascii_lower (\<lambda>s. int (length s)) (\<lambda>s. s) ''t1'' ''t2''
             ''ann'' ''very upset'' None) = Inr ''medium''"
    by code_simp
  have f: "map_sum id severity (frontend_analyze_mood ascii_lower 0 ''t1'' ''ann'' ''very upset'' None)
             = Inr ''medium''"
    by code_simp
  have i: "music_options ''medium'' ! nat (int (length ''very upset'') mod 3)
             = ''Pure Shores - All Saints (relaxing)''"
    by code_simp
  have j: "frontend_music ''medium'' = ''Clair de Lune - Debussy''"
    by code_simp
  from music_pick[OF severity_arg_ok_None,
      where lower=ascii_lower and t="''very upset''" and hash="\<lambda>s. int (length s)" and ?md5.0="\<lambda>s. s"
        and ?n1.0="''t1''" and ?n2.0="''t2''" and uid="''ann''" and n=0 and now="''t1''"]
  obtain r q where r: "mock_analyze_mood ascii_lower (\<lambda>s. int (length s)) (\<lambda>s. s) ''t1'' ''t2'' ''ann''
          ''very upset'' None = Inr r"
    and rm: "music_track r = music_options (severity r) ! nat (int (length ''very upset'') mod 3)"
    and q: "frontend_analyze_mood ascii_lower 0 ''t1'' ''ann'' ''very upset'' None = Inr q"
    and qm: "music_track q = frontend_music (severity q)"
    by blast
  from m r have "severity r = ''medium''" by simp
  with rm i have "music_track r = ''Pure Shores - All Saints (relaxing)''" by simp
  moreover from f q have "severity q = ''medium''" by simp
  with qm j have "music_track q = ''Clair de Lune - Debussy''" by simp
  ultimately show ?thesis using r q by blast
qed

text \<open>
  The claim as stated fails on \<^verbatim>\<open>analyze_mood\<close> of \<^verbatim>\<open>mindmate_frontend.py\<close>: its
  track for a high severity is none of the three candidates of that tier.
\<close>

theorem frontend_music_counterexample:
  "map_sum id (\<lambda>r. music_track r \<in> set (music_options (severity r)))
     (frontend_analyze_mood ascii_lower 0 ''t1'' ''ann'' ''I need help'' None) = Inr False"
  by code_simp

section \<open>The insight\<close>

text \<open>
  Claim C6, as amended. For every fixed category or "other" and every tier,
  \<^verbatim>\<open>mock_analyze_mood\<close> builds the insight from three parts in order, joined by single
  spaces: the boilerplate sentence of the severity, the sentence found under the trigger
  and the severity in the table, and the closing sentence of the severity.
  \<^verbatim>\<open>analyze_mood\<close> of \<^verbatim>\<open>mindmate_frontend.py\<close> returns one fixed text for each
  severity, whatever the trigger.
\<close>

theorem insight_three_parts:
  assumes "severity_arg_ok sev0"
  shows "(\<exists>r. mock_analyze_mood lower hash md5 n1 n2 uid t sev0 = Inr r \<and>
              Some (deep_insight r) = claimed_insight '' '' (primary_trigger r) (severity r)) \<and>
         (\<exists>r. frontend_analyze_mood lower n now uid t sev0 = Inr r \<and>
              deep_insight r = frontend_insight (severity r)) \<and>
         (p \<in> set categories \<union> {''other''} \<longrightarrow> sev \<in> set tiers \<longrightarrow>
            (\<exists>s. claimed_insight '' '' p sev = Some s \<and> build_insight p sev = Inr s))"
proof (intro conjI impI)
  obtain r where r: "mock_analyze_mood lower hash md5 n1 n2 uid t sev0 = Inr r"
    and p: "pick_primary (score_triggers (lower t)) = Inr (primary_trigger r)"
    and sv: "severity r = resolve_severity sev0 (lower t)"
    and bi: "build_insight (primary_trigger r) (severity r) = Inr (deep_insight r)"
    using mock_analyze_mood_fields[OF assms] by blast
  from pick_primary_other[OF p] have pc: "primary_trigger r \<in> set categories \<union> {''other''}"
    by blast
  from resolve_severity_tier[OF assms, of "lower t"] sv have st: "severity r \<in> set tiers"
    by simp
  from build_insight_ok[OF pc st] bi
  have "Some (deep_insight r) = claimed_insight '' '' (primary_trigger r) (severity r)"
    by (auto simp: claimed_insight_def)
  with r show "\<exists>r. mock_analyze_mood lower hash md5 n1 n2 uid t sev0 = Inr r \<and>
              Some (deep_insight r) = claimed_insight '' '' (primary_trigger r) (severity r)"
    by blast
next
  from frontend_analyze_mood_fields
  show "\<exists>r. frontend_analyze_mood lower n now uid t sev0 = Inr r \<and>
              deep_insight r = frontend_insight (severity r)"
    by blast
next
  assume "p \<in> set categories \<union> {''other''}" and "sev \<in> set tiers"
  from build_insight_ok[OF this]
  show "\<exists>s. claimed_insight '' '' p sev = Some s \<and> build_insight p sev = Inr s"
    by (auto simp: claimed_insight_def)
qed

theorem insight_three_parts_witness:
  "(\<exists>r. mock_analyze_mood ascii_lower (\<lambda>s. int (length s)) (\<lambda>s. s) ''t1'' ''t2'' ''ann''
          ''my job'' (Some ''low'') = Inr r \<and>
        Some (deep_insight r) = claimed_insight '' '' (primary_trigger r) (severity r)) \<and>
   (\<exists>r. frontend_analyze_mood ascii_lower 0 ''t1'' ''ann'' ''my job'' (Some ''low'') = Inr r \<and>
        deep_insight r = frontend_insight (severity r)) \<and>
   (\<exists>s. claimed_insight '' '' ''work'' ''low'' = Some s \<and> build_insight ''work'' ''low'' = Inr s)"
proof -
  have h: "severity_arg_ok (Some ''low'')"
    by (simp add: severity_arg_ok_def tiers_def)
  have p: "''work'' \<in> set categories \<union> {''other''}"
    by (simp add: categories_def trigger_keywords_def)
  have s: "''low'' \<in> set tiers"
    by (simp add: tiers_def)
  from insight_three_parts[OF h, where p="''work''" and sev="''low''"] p s
  show ?thesis by blast
qed

text \<open>
  The claim as stated fails on \<^verbatim>\<open>analyze_mood\<close> of \<^verbatim>\<open>mindmate_frontend.py\<close>: for the
  trigger "political" and the severity "high" its insight is not the three parts, with or
  without spaces between them.
\<close>

theorem frontend_insight_counterexample:
  "map_sum id
     (\<lambda>r. Some (deep_insight r) = claimed_insight [] (primary_trigger r) (severity r) \<or>
          Some (deep_insight r) = claimed_insight '' '' (primary_trigger r) (severity r))
     (frontend_analyze_mood ascii_lower 0 ''t1'' ''ann'' ''election day'' (Some ''high'')) = Inr False"
  by code_simp

section \<open>The analysis always returns\<close>

lemma is_space_lower_char: "is_space c \<Longrightarrow> lower_char c = c"
  by (auto simp: is_space_def lower_char_def Let_def)

lemma is_space_ascii: "\<forall>c\<in>set t. is_space c \<Longrightarrow> is_ascii t"
  by (auto simp: is_space_def is_ascii_def)

lemma is_space_lower:
  assumes "ascii_faithful lower" and "\<forall>c\<in>set t. is_space c"
  shows "lower t = t"
proof -
  from assms(1) is_space_ascii[OF assms(2)] have "lower t = map lower_char t"
    by (simp add: ascii_faithful_def ascii_lower_def)
  also from assms(2) have "\<dots> = t"
    by (simp add: is_space_lower_char map_idI)
  finally show ?thesis .
qed

lemma str_in_hd: "str_in kw s \<Longrightarrow> kw \<noteq> [] \<Longrightarrow> hd kw \<in> set s"
proof -
  assume "str_in kw s" and ne: "kw \<noteq> []"
  then have "sublist kw s" by (simp add: str_in_sublist)
  then have "set kw \<subseteq> set s" by (rule set_mono_sublist)
  with ne show ?thesis by (cases kw) auto
qed

lemma no_keyword_in_spaces:
  assumes "ascii_faithful lower" and "\<forall>c\<in>set t. is_space c"
    and "list_all (\<lambda>kw. kw \<noteq> [] \<and> \<not> is_space (hd kw)) kws"
  shows "\<forall>kw\<in>set kws. \<not> str_in kw (lower t)"
proof
  fix kw assume kw: "kw \<in> set kws"
  with assms(3) have ne: "kw \<noteq> []" and hd: "\<not> is_space (hd kw)" by (auto simp: list_all_iff)
  show "\<not> str_in kw (lower t)"
  proof
    assume "str_in kw (lower t)"
    from str_in_hd[OF this ne] is_space_lower[OF assms(1,2)] assms(2) hd show False by simp
  qed
qed

lemma high_words_heads: "list_all (\<lambda>kw. kw \<noteq> [] \<and> \<not> is_space (hd kw)) high_words"
  by code_simp

lemma medium_words_heads: "list_all (\<lambda>kw. kw \<noteq> [] \<and> \<not> is_space (hd kw)) medium_words"
  by code_simp

lemma stress_words_heads: "list_all (\<lambda>kw. kw \<noteq> [] \<and> \<not> is_space (hd kw)) stress_words"
  by code_simp

lemma trigger_keywords_heads:
  "list_all (\<lambda>(c, kws). list_all (\<lambda>kw. kw \<noteq> [] \<and> \<not> is_space (hd kw)) kws) trigger_keywords"
  by code_simp

lemma frontend_rules_heads:
  "list_all (\<lambda>(ws, c, w). list_all (\<lambda>kw. kw \<noteq> [] \<and> \<not> is_space (hd kw)) ws) frontend_rules"
  by code_simp

lemma spaces_scores:
  assumes "ascii_faithful lower" and "\<forall>c\<in>set t. is_space c"
  shows "\<forall>x\<in>set (score_triggers (lower t)). snd x = 0"
proof
  fix x assume "x \<in> set (score_triggers (lower t))"
  then obtain c kws where m: "(c, kws) \<in> set trigger_keywords"
    and x: "x = (c, keyword_score kws (lower t))"
    by (auto simp: score_triggers_eq)
  from m trigger_keywords_heads
  have "list_all (\<lambda>kw. kw \<noteq> [] \<and> \<not> is_space (hd kw)) kws" by (auto simp: list_all_iff)
  from no_keyword_in_spaces[OF assms this]
  have "filter (\<lambda>kw. str_in kw (lower t)) kws = []" by (simp add: filter_empty_conv)
  with x show "snd x = 0" by (simp add: keyword_score_length)
qed

lemma spaces_auto_severity:
  assumes "ascii_faithful lower" and "\<forall>c\<in>set t. is_space c"
  shows "auto_severity (lower t) = ''low''"
  using no_keyword_in_spaces[OF assms high_words_heads]
    no_keyword_in_spaces[OF assms medium_words_heads]
  by (simp add: auto_severity_def list_ex_iff)

lemma spaces_frontend_scores:
  assumes "ascii_faithful lower" and "\<forall>c\<in>set t. is_space c"
  shows "frontend_score_triggers (lower t) = []"
proof -
  have "\<not> list_ex (\<lambda>word. str_in word (lower t)) (fst r)" if "r \<in> set frontend_rules" for r
  proof -
    obtain ws c w where rw: "r = (ws, c, w)" by (cases r) auto
    from that frontend_rules_heads
    have "list_all (\<lambda>kw. kw \<noteq> [] \<and> \<not> is_space (hd kw)) (fst r)"
      unfolding rw by (fastforce simp: list_all_iff)
    from no_keyword_in_spaces[OF assms this] show ?thesis by (simp add: list_ex_iff)
  qed
  then show ?thesis by (simp add: frontend_score_triggers_eq filter_empty_conv)
qed

lemma spaces_frontend_severity:
  assumes "ascii_faithful lower" and "\<forall>c\<in>set t. is_space c"
  shows "frontend_resolve_severity None (lower t) = ''medium''"
  using no_keyword_in_spaces[OF assms stress_words_heads]
  by (simp add: frontend_resolve_severity_def list_ex_iff)

text \<open>
  Claim C7, as amended. Called without a severity, both analysis functions return a record
  for every text, the empty text and texts of white space included, whatever
  \<^verbatim>\<open>str.lower\<close> does. For a text of white space only, which \<^verbatim>\<open>str.lower\<close> leaves as it
  is, \<^verbatim>\<open>mock_analyze_mood\<close> gives every category the score zero, the primary trigger
  "other" and the severity "low"; \<^verbatim>\<open>analyze_mood\<close> of \<^verbatim>\<open>mindmate_frontend.py\<close> gives no
  scores at all, the primary trigger "other" and the severity "medium".
\<close>

theorem analysis_returns:
  "(\<exists>r. mock_analyze_mood lower hash md5 n1 n2 uid t None = Inr r \<and>
        (ascii_faithful lower \<longrightarrow> (\<forall>c\<in>set t. is_space c) \<longrightarrow>
           map fst (trigger_scores r) = categories \<and>
           (\<forall>x\<in>set (trigger_scores r). snd x = 0) \<and>
           primary_trigger r = ''other'' \<and> severity r = ''low'')) \<and>
   (\<exists>r. frontend_analyze_mood lower n now uid t None = Inr r \<and>
        (ascii_faithful lower \<longrightarrow> (\<forall>c\<in>set t. is_space c) \<longrightarrow>
           trigger_scores r = [] \<and> primary_trigger r = ''other'' \<and> severity r = ''medium''))"
proof
  obtain r where r: "mock_analyze_mood lower hash md5 n1 n2 uid t None = Inr r"
    and p: "pick_primary (score_triggers (lower t)) = Inr (primary_trigger r)"
    and ts: "trigger_scores r = score_triggers (lower t)"
    and sv: "severity r = resolve_severity None (lower t)"
    using mock_analyze_mood_fields[OF severity_arg_ok_None] by blast
  have "map fst (trigger_scores r) = categories \<and>
        (\<forall>x\<in>set (trigger_scores r). snd x = 0) \<and>
        primary_trigger r = ''other'' \<and> severity r = ''low''"
    if af: "ascii_faithful lower" and sp: "\<forall>c\<in>set t. is_space c"
    using spaces_scores[OF af sp] spaces_auto_severity[OF af sp] pick_primary_other[OF p]
      map_fst_score_triggers[of "lower t"] ts sv
    by (simp add: resolve_severity_def)
  with r show "\<exists>r. mock_analyze_mood lower hash md5 n1 n2 uid t None = Inr r \<and>
        (ascii_faithful lower \<longrightarrow> (\<forall>c\<in>set t. is_space c) \<longrightarrow>
           map fst (trigger_scores r) = categories \<and>
           (\<forall>x\<in>set (trigger_scores r). snd x = 0) \<and>
           primary_trigger r = ''other'' \<and> severity r = ''low'')"
    by blast
next
  obtain r where r: "frontend_analyze_mood lower n now uid t None = Inr r"
    and p: "frontend_pick_primary (frontend_score_triggers (lower t)) = Inr (primary_trigger r)"
    and ts: "trigger_scores r = frontend_score_triggers (lower t)"
    and sv: "severity r = frontend_resolve_severity None (lower t)"
    using frontend_analyze_mood_fields by blast
  have "trigger_scores r = [] \<and> primary_trigger r = ''other'' \<and> severity r = ''medium''"
    if af: "ascii_faithful lower" and sp: "\<forall>c\<in>set t. is_space c"
    using spaces_frontend_scores[OF af sp] spaces_frontend_severity[OF af sp]
      frontend_pick_primary_other[OF p] ts sv
    by simp
  with r show "\<exists>r. frontend_analyze_mood lower n now uid t None = Inr r \<and>
        (ascii_faithful lower \<longrightarrow> (\<forall>c\<in>set t. is_space c) \<longrightarrow>
           trigger_scores r = [] \<and> primary_trigger r = ''other'' \<and> severity r = ''medium'')"
    by blast
qed

theorem analysis_returns_witness:
  "(\<exists>r. mock_analyze_mood ascii_lower (\<lambda>s. int (length s)) (\<lambda>s. s) ''t1'' ''t2'' ''ann''
          [CHR '' '', CHR 0x09, CHR 0x0A] None = Inr r \<and>
        map fst (trigger_scores r) = categories \<and>
        (\<forall>x\<in>set (trigger_scores r). snd x = 0) \<and>
        primary_trigger r = ''other'' \<and> severity r = ''low'') \<and>
   (\<exists>r. frontend_analyze_mood ascii_lower 0 ''t1'' ''ann'' [CHR '' '', CHR 0x09, CHR 0x0A] None
          = Inr r \<and>
        trigger_scores r = [] \<and> primary_trigger r = ''other'' \<and> severity r = ''medium'')"
proof -
  have af: "ascii_faithful ascii_lower"
    by (simp add: ascii_faithful_def)
  have h: "\<forall>c\<in>set [CHR '' '', CHR 0x09, CHR 0x0A]. is_space c"
    by (simp add: is_space_def)
  from analysis_returns[where lower=ascii_lower and t="[CHR '' '', CHR 0x09, CHR 0x0A]"] af h
  show ?thesis by blast
qed

text \<open>
  The claim as stated fails on \<^verbatim>\<open>analyze_mood\<close> of \<^verbatim>\<open>mindmate_frontend.py\<close>: a blank
  text, which \<^verbatim>\<open>str.lower\<close> leaves as it is, is rated medium, not low.
\<close>

theorem frontend_blank_counterexample:
  "map_sum id severity (frontend_analyze_mood ascii_lower 0 ''t1'' ''ann'' ''   '' None)
     \<noteq> Inr ''low''"
proof -
  have "map_sum id severity (frontend_analyze_mood ascii_lower 0 ''t1'' ''ann'' ''   '' None)
          = Inr ''medium''"
    by code_simp
  then show ?thesis by simp
qed

section \<open>Deleting entries\<close>

lemma remove1_first:
  "e \<in> set xs \<Longrightarrow> \<exists>pre post. xs = pre @ e # post \<and> e \<notin> set pre \<and> remove1 e xs = pre @ post"
proof -
  assume "e \<in> set xs"
  from split_list_first[OF this] obtain pre post where "xs = pre @ e # post" and "e \<notin> set pre"
    by blast
  then show ?thesis by (auto simp: remove1_append)
qed

lemma filter_remove1_others: "filter (\<lambda>x. x \<noteq> e) (remove1 e xs) = filter (\<lambda>x. x \<noteq> e) xs"
  by (induction xs) auto

lemma remove1_by_key:
  assumes "distinct (map f xs)" and "e \<in> set xs"
  shows "remove1 e xs = filter (\<lambda>x. f x \<noteq> f e) xs"
proof -
  from assms(1) have d: "distinct xs" and i: "inj_on f (set xs)" by (auto simp: distinct_map)
  from d have "remove1 e xs = filter (\<lambda>x. x \<noteq> e) xs"
    by (simp add: distinct_remove1_removeAll removeAll_filter_not_eq) metis
  also have "\<dots> = filter (\<lambda>x. f x \<noteq> f e) xs"
    using i assms(2) by (intro filter_cong) (auto dest: inj_onD)
  finally show ?thesis .
qed

text \<open>
  Claim C8. Deleting an entry that is in the collection removes one occurrence of it, the
  first, and keeps every other entry, in order; when record ids are unique in the
  collection, what remains is exactly the entries with another record id. Clearing the data
  of a user removes exactly the entries with that user id and keeps the entries of every
  other user, in order. Either way the data file holds the new collection when the write
  succeeds, is untouched when the file cannot be opened, and is left truncated when the
  dump fails.
\<close>

theorem deletion_frames:
  "(e \<in> set (entries st) \<longrightarrow>
      (\<exists>st'. delete_entry w e st = Inr st' \<and>
         (\<exists>pre post. entries st = pre @ e # post \<and> e \<notin> set pre \<and> entries st' = pre @ post) \<and>
         filter (\<lambda>x. x \<noteq> e) (entries st') = filter (\<lambda>x. x \<noteq> e) (entries st) \<and>
         (distinct (map record_id (entries st)) \<longrightarrow>
            entries st' = filter (\<lambda>x. record_id x \<noteq> record_id e) (entries st)) \<and>
         data_file st' =
           (case w of Written \<Rightarrow> Document (entries st') | Open_failed \<Rightarrow> data_file st
            | Dump_failed \<Rightarrow> Truncated))) \<and>
   entries (clear_my_data w u st) = filter (\<lambda>x. user_id x \<noteq> u) (entries st) \<and>
   filter (\<lambda>x. user_id x = u) (entries (clear_my_data w u st)) = [] \<and>
   filter (\<lambda>x. user_id x \<noteq> u) (entries (clear_my_data w u st)) =
     filter (\<lambda>x. user_id x \<noteq> u) (entries st) \<and>
   data_file (clear_my_data w u st) =
     (case w of Written \<Rightarrow> Document (entries (clear_my_data w u st))
      | Open_failed \<Rightarrow> data_file st | Dump_failed \<Rightarrow> Truncated)"
proof (intro conjI impI)
  assume m: "e \<in> set (entries st)"
  define st' where "st' = save_data w (remove1 e (entries st)) (st\<lparr>entries := remove1 e (entries st)\<rparr>)"
  have d: "delete_entry w e st = Inr st'"
    using m by (simp add: delete_entry_def list_remove_def st'_def Let_def)
  have es: "entries st' = remove1 e (entries st)"
    by (simp add: st'_def save_data_def split: write_outcome.splits)
  have df: "data_file st' =
      (case w of Written \<Rightarrow> Document (entries st') | Open_failed \<Rightarrow> data_file st
       | Dump_failed \<Rightarrow> Truncated)"
    by (simp add: st'_def save_data_def split: write_outcome.splits)
  from remove1_first[OF m]
  have a: "\<exists>pre post. entries st = pre @ e # post \<and> e \<notin> set pre \<and> entries st' = pre @ post"
    unfolding es .
  have b: "filter (\<lambda>x. x \<noteq> e) (entries st') = filter (\<lambda>x. x \<noteq> e) (entries st)"
    unfolding es by (rule filter_remove1_others)
  have c: "distinct (map record_id (entries st)) \<longrightarrow>
            entries st' = filter (\<lambda>x. record_id x \<noteq> record_id e) (entries st)"
    unfolding es using remove1_by_key[of record_id "entries st" e] m by blast
  from d a b c df
  show "\<exists>st'. delete_entry w e st = Inr st' \<and>
         (\<exists>pre post. entries st = pre @ e # post \<and> e \<notin> set pre \<and> entries st' = pre @ post) \<and>
         filter (\<lambda>x. x \<noteq> e) (entries st') = filter (\<lambda>x. x \<noteq> e) (entries st) \<and>
         (distinct (map record_id (entries st)) \<longrightarrow>
            entries st' = filter (\<lambda>x. record_id x \<noteq> record_id e) (entries st)) \<and>
         data_file st' =
           (case w of Written \<Rightarrow> Document (entries st') | Open_failed \<Rightarrow> data_file st
            | Dump_failed \<Rightarrow> Truncated)"
    by blast
next
  show "entries (clear_my_data w u st) = filter (\<lambda>x. user_id x \<noteq> u) (entries st)"
    by (simp add: clear_my_data_def save_data_def Let_def split: write_outcome.splits)
next
  show "filter (\<lambda>x. user_id x = u) (entries (clear_my_data w u st)) = []"
    by (simp add: clear_my_data_def save_data_def Let_def filter_empty_conv
        split: write_outcome.splits)
next
  show "filter (\<lambda>x. user_id x \<noteq> u) (entries (clear_my_data w u st)) =
          filter (\<lambda>x. user_id x \<noteq> u) (entries st)"
    by (simp add: clear_my_data_def save_data_def Let_def split: write_outcome.splits)
next
  show "data_file (clear_my_data w u st) =
     (case w of Written \<Rightarrow> Document (entries (clear_my_data w u st))
      | Open_failed \<Rightarrow> data_file st | Dump_failed \<Rightarrow> Truncated)"
    by (simp add: clear_my_data_def save_data_def Let_def split: write_outcome.splits)
qed

theorem deletion_frames_witness:
  "(\<exists>st'. delete_entry Written
            \<lparr>success = True, record_id = ''a1'', user_id = ''ann'', mood = Some ''my job'',
                 primary_trigger = ''work'', trigger_scores = [(''work'', 1)], severity = ''low'',
                 advice = ''x'', music_track = ''y'', deep_insight = ''z'', timestamp = ''t1'',
                 private_note = None\<rparr>
            \<lparr>entries =
               [\<lparr>success = True, record_id = ''a1'', user_id = ''ann'', mood = Some ''my job'',
                 primary_trigger = ''work'', trigger_scores = [(''work'', 1)], severity = ''low'',
                 advice = ''x'', music_track = ''y'', deep_insight = ''z'', timestamp = ''t1'',
                 private_note = None\<rparr>,
                \<lparr>success = True, record_id = ''b2'', user_id = ''bob'', mood = Some ''my job'',
                 primary_trigger = ''work'', trigger_scores = [(''work'', 1)], severity = ''low'',
                 advice = ''x'', music_track = ''y'', deep_insight = ''z'', timestamp = ''t2'',
                 private_note = None\<rparr>],
             data_file = No_file\<rparr> = Inr st' \<and>
          map record_id (entries st') = [''b2''] \<and> data_file st' = Document (entries st')) \<and>
   map record_id (entries (clear_my_data Written ''bob''
            \<lparr>entries =
               [\<lparr>success = True, record_id = ''a1'', user_id = ''ann'', mood = Some ''my job'',
                 primary_trigger = ''work'', trigger_scores = [(''work'', 1)], severity = ''low'',
                 advice = ''x'', music_track = ''y'', deep_insight = ''z'', timestamp = ''t1'',
                 private_note = None\<rparr>,
                \<lparr>success = True, record_id = ''b2'', user_id = ''bob'', mood = Some ''my job'',
                 primary_trigger = ''work'', trigger_scores = [(''work'', 1)], severity = ''low'',
                 advice = ''x'', music_track = ''y'', deep_insight = ''z'', timestamp = ''t2'',
                 private_note = None\<rparr>],
             data_file = No_file\<rparr>)) = [''a1'']"
  using deletion_frames[where w=Written and u="''bob''"
      and e="\<lparr>success = True, record_id = ''a1'', user_id = ''ann'', mood = Some ''my job'',
                 primary_trigger = ''work'', trigger_scores = [(''work'', 1)], severity = ''low'',
                 advice = ''x'', music_track = ''y'', deep_insight = ''z'', timestamp = ''t1'',
                 private_note = None\<rparr>"
      and st="\<lparr>entries =
               [\<lparr>success = True, record_id = ''a1'', user_id = ''ann'', mood = Some ''my job'',
                 primary_trigger = ''work'', trigger_scores = [(''work'', 1)], severity = ''low'',
                 advice = ''x'', music_track = ''y'', deep_insight = ''z'', timestamp = ''t1'',
                 private_note = None\<rparr>,
                \<lparr>success = True, record_id = ''b2'', user_id = ''bob'', mood = Some ''my job'',
                 primary_trigger = ''work'', trigger_scores = [(''work'', 1)], severity = ''low'',
                 advice = ''x'', music_track = ''y'', deep_insight = ''z'', timestamp = ''t2'',
                 private_note = None\<rparr>],
             data_file = No_file\<rparr>"]
  by auto

end
